theory Spec2Isabelle
  imports Complex_Main
begin

section \<open>JavaScript numbers\<close>

text \<open>
  A JavaScript number is an IEEE 754 double. The model keeps the three non-finite values
  apart from the finite ones, because the program divides and the results of a division
  by zero (\<open>Infinity\<close>, \<open>-Infinity\<close>, \<open>NaN\<close>) flow through the rest of the arithmetic.
  Finite values are exact reals: rounding, overflow of a finite operation and the sign of
  zero (every zero is \<open>+0\<close>) are not modelled. A theorem whose truth depends on a finite
  operation not overflowing therefore bounds the magnitudes of its inputs explicitly.
\<close>

datatype jsnum = Fin real | PInf | NInf | NaN

fun isFinite :: "jsnum \<Rightarrow> bool" where
  "isFinite (Fin a) = True"
| "isFinite PInf = False"
| "isFinite NInf = False"
| "isFinite NaN = False"

fun jsign :: "jsnum \<Rightarrow> real" where
  "jsign (Fin a) = sgn a"
| "jsign PInf = 1"
| "jsign NInf = - 1"
| "jsign NaN = 0"

definition signed_inf :: "real \<Rightarrow> jsnum" where
  "signed_inf s = (if 0 < s then PInf else if s < 0 then NInf else NaN)"

instantiation jsnum :: "{plus, minus, uminus, times, inverse, ord}"
begin

fun plus_jsnum :: "jsnum \<Rightarrow> jsnum \<Rightarrow> jsnum" where
  "plus_jsnum (Fin a) (Fin b) = Fin (a + b)"
| "plus_jsnum NaN b = NaN"
| "plus_jsnum a NaN = NaN"
| "plus_jsnum PInf NInf = NaN"
| "plus_jsnum NInf PInf = NaN"
| "plus_jsnum PInf b = PInf"
| "plus_jsnum a PInf = PInf"
| "plus_jsnum NInf b = NInf"
| "plus_jsnum a NInf = NInf"

fun uminus_jsnum :: "jsnum \<Rightarrow> jsnum" where
  "uminus_jsnum (Fin a) = Fin (- a)"
| "uminus_jsnum PInf = NInf"
| "uminus_jsnum NInf = PInf"
| "uminus_jsnum NaN = NaN"

definition minus_jsnum :: "jsnum \<Rightarrow> jsnum \<Rightarrow> jsnum" where
  "minus_jsnum a b = a + (- b)"

fun times_jsnum :: "jsnum \<Rightarrow> jsnum \<Rightarrow> jsnum" where
  "times_jsnum (Fin a) (Fin b) = Fin (a * b)"
| "times_jsnum NaN b = NaN"
| "times_jsnum a NaN = NaN"
| "times_jsnum a b = signed_inf (jsign a * jsign b)"

fun divide_jsnum :: "jsnum \<Rightarrow> jsnum \<Rightarrow> jsnum" where
  "divide_jsnum (Fin a) (Fin b) = (if b = 0 then signed_inf (sgn a) else Fin (a / b))"
| "divide_jsnum NaN b = NaN"
| "divide_jsnum a NaN = NaN"
| "divide_jsnum (Fin a) b = Fin 0"
| "divide_jsnum a (Fin b) = signed_inf (jsign a * (if b < 0 then - 1 else 1))"
| "divide_jsnum a b = NaN"

definition inverse_jsnum :: "jsnum \<Rightarrow> jsnum" where
  "inverse_jsnum a = divide (Fin 1) a"

fun less_jsnum :: "jsnum \<Rightarrow> jsnum \<Rightarrow> bool" where
  "less_jsnum (Fin a) (Fin b) = (a < b)"
| "less_jsnum NaN b = False"
| "less_jsnum a NaN = False"
| "less_jsnum a NInf = False"
| "less_jsnum PInf b = False"
| "less_jsnum a b = True"

definition less_eq_jsnum :: "jsnum \<Rightarrow> jsnum \<Rightarrow> bool" where
  "less_eq_jsnum a b = (a < b \<or> (a = b \<and> a \<noteq> NaN))"

instance ..

end

fun Math_max :: "jsnum \<Rightarrow> jsnum \<Rightarrow> jsnum" where
  "Math_max NaN b = NaN"
| "Math_max a NaN = NaN"
| "Math_max a b = (if a < b then b else a)"

fun Math_min :: "jsnum \<Rightarrow> jsnum \<Rightarrow> jsnum" where
  "Math_min NaN b = NaN"
| "Math_min a NaN = NaN"
| "Math_min a b = (if b < a then b else a)"

fun Math_sin :: "jsnum \<Rightarrow> jsnum" where
  "Math_sin (Fin a) = Fin (sin a)"
| "Math_sin a = NaN"

fun Math_cos :: "jsnum \<Rightarrow> jsnum" where
  "Math_cos (Fin a) = Fin (cos a)"
| "Math_cos a = NaN"

fun Math_sqrt :: "jsnum \<Rightarrow> jsnum" where
  "Math_sqrt (Fin a) = (if a < 0 then NaN else Fin (sqrt a))"
| "Math_sqrt PInf = PInf"
| "Math_sqrt a = NaN"

section \<open>The PID controller (utils/PIDController.js)\<close>

record PIDController =
  kp :: jsnum
  ki :: jsnum
  kd :: jsnum
  maxOutput :: jsnum
  integral :: jsnum
  prevError :: jsnum
  lastP :: jsnum
  lastI :: jsnum
  lastD :: jsnum

definition new_PIDController :: "jsnum \<Rightarrow> jsnum \<Rightarrow> jsnum \<Rightarrow> jsnum \<Rightarrow> PIDController" where
  "new_PIDController p i d m =
     \<lparr>kp = p, ki = i, kd = d, maxOutput = m, integral = Fin 0, prevError = Fin 0,
      lastP = Fin 0, lastI = Fin 0, lastD = Fin 0\<rparr>"

definition calculate :: "PIDController \<Rightarrow> jsnum \<Rightarrow> jsnum \<Rightarrow> PIDController \<times> jsnum" where
  "calculate c error dt =
     (let c1 = c\<lparr>lastP := kp c * error\<rparr>;
          c2 = c1\<lparr>integral := Math_max (Fin (- 15)) (Math_min (Fin 15) (integral c1 + error * dt))\<rparr>;
          c3 = c2\<lparr>lastI := ki c2 * integral c2\<rparr>;
          derivative = (error - prevError c3) / dt;
          c4 = c3\<lparr>lastD := kd c3 * derivative\<rparr>;
          c5 = c4\<lparr>prevError := error\<rparr>;
          output = lastP c5 + lastI c5 + lastD c5
      in (c5, Math_max (- maxOutput c5) (Math_min (maxOutput c5) output)))"

definition reset :: "PIDController \<Rightarrow> PIDController" where
  "reset c = c\<lparr>integral := Fin 0, prevError := Fin 0, lastP := Fin 0, lastI := Fin 0, lastD := Fin 0\<rparr>"

section \<open>Vectors (the operations of three.js' Vector3 that the engine calls)\<close>

record Vector3 =
  vx :: jsnum
  vy :: jsnum
  vz :: jsnum

definition Vec :: "jsnum \<Rightarrow> jsnum \<Rightarrow> jsnum \<Rightarrow> Vector3" where
  "Vec a b c = \<lparr>vx = a, vy = b, vz = c\<rparr>"

definition subVectors :: "Vector3 \<Rightarrow> Vector3 \<Rightarrow> Vector3" where
  "subVectors a b = \<lparr>vx = vx a - vx b, vy = vy a - vy b, vz = vz a - vz b\<rparr>"

definition add_v :: "Vector3 \<Rightarrow> Vector3 \<Rightarrow> Vector3" where
  "add_v a b = \<lparr>vx = vx a + vx b, vy = vy a + vy b, vz = vz a + vz b\<rparr>"

definition multiplyScalar :: "Vector3 \<Rightarrow> jsnum \<Rightarrow> Vector3" where
  "multiplyScalar v k = \<lparr>vx = vx v * k, vy = vy v * k, vz = vz v * k\<rparr>"

definition length_v :: "Vector3 \<Rightarrow> jsnum" where
  "length_v v = Math_sqrt (vx v * vx v + vy v * vy v + vz v * vz v)"

text \<open>\<open>a || b\<close> on numbers: \<open>0\<close> and \<open>NaN\<close> are falsy.\<close>

definition js_or :: "jsnum \<Rightarrow> jsnum \<Rightarrow> jsnum" where
  "js_or a b = (if a = Fin 0 \<or> a = NaN then b else a)"

definition divideScalar :: "Vector3 \<Rightarrow> jsnum \<Rightarrow> Vector3" where
  "divideScalar v k = multiplyScalar v (Fin 1 / k)"

definition normalize :: "Vector3 \<Rightarrow> Vector3" where
  "normalize v = divideScalar v (js_or (length_v v) (Fin 1))"

definition distanceTo :: "Vector3 \<Rightarrow> Vector3 \<Rightarrow> jsnum" where
  "distanceTo a b =
     (let dx = vx a - vx b; dy = vy a - vy b; dz = vz a - vz b
      in Math_sqrt (dx * dx + dy * dy + dz * dz))"

section \<open>Configuration (utils/constants.js)\<close>

definition ALIEN_COUNT :: jsnum where "ALIEN_COUNT = Fin 5"
definition ALIEN_FIRE_RATE_MIN :: jsnum where "ALIEN_FIRE_RATE_MIN = Fin 2500"
definition ALIEN_FIRE_RATE_MAX :: jsnum where "ALIEN_FIRE_RATE_MAX = Fin 4500"
definition ALIEN_RANGE :: jsnum where "ALIEN_RANGE = Fin 60"
definition LASER_SPEED :: jsnum where "LASER_SPEED = Fin 60"
definition LASER_MAX_DISTANCE :: jsnum where "LASER_MAX_DISTANCE = Fin 120"
definition LASER_DAMAGE :: jsnum where "LASER_DAMAGE = Fin 18"
definition UAP_THRUST :: jsnum where "UAP_THRUST = Fin 40"
definition UAP_BOOST_THRUST :: jsnum where "UAP_BOOST_THRUST = Fin 100"
definition UAP_BOOST_DRAIN :: jsnum where "UAP_BOOST_DRAIN = Fin 30"
definition UAP_BOOST_RECHARGE :: jsnum where "UAP_BOOST_RECHARGE = Fin 15"
definition UAP_GRAVITY :: jsnum where "UAP_GRAVITY = Fin (- 15)"
definition UAP_HOVER_FORCE :: jsnum where "UAP_HOVER_FORCE = Fin 14"
definition UAP_DAMPING :: jsnum where "UAP_DAMPING = Fin 0.94"
definition SHIELD_MAX :: jsnum where "SHIELD_MAX = Fin 100"
definition SHIELD_REGEN :: jsnum where "SHIELD_REGEN = Fin 4"
definition WORLD_BOUNDS_x :: jsnum where "WORLD_BOUNDS_x = Fin 60"
definition WORLD_BOUNDS_y_min :: jsnum where "WORLD_BOUNDS_y_min = Fin 1"
definition WORLD_BOUNDS_y_max :: jsnum where "WORLD_BOUNDS_y_max = Fin 50"
definition WORLD_BOUNDS_z :: jsnum where "WORLD_BOUNDS_z = Fin 60"

section \<open>The engine state (engine/GameEngine.js)\<close>

text \<open>
  Only the simulation state is kept: the scene graph, the camera, the renderer and the
  state published to the user interface are presentation. A laser's \<open>mesh.position\<close>
  and an alien's \<open>position\<close> and \<open>userData\<close> are fields of the records below.
  \<open>evadeCount\<close> starts at 0 and is only ever incremented, so it is a natural number.
\<close>

record laser =
  mesh_position :: Vector3
  direction :: Vector3
  speed :: jsnum
  distance :: jsnum
  counted :: bool

record alien =
  position :: Vector3
  visible :: bool
  alive :: bool
  baseY :: jsnum
  lastShot :: jsnum
  shotInterval :: jsnum

record engine =
  uap_position :: Vector3
  uapVelocity :: Vector3
  aliens :: "alien list"
  lasers :: "laser list"
  shields :: jsnum
  boost :: jsnum
  survivalTime :: jsnum
  evadeCount :: nat
  isBoosting :: bool
  autopilot :: bool
  gameStarted :: bool
  gamePaused :: bool
  gameOver :: bool
  disposed :: bool
  keys :: "string \<Rightarrow> bool"
  pidX :: PIDController
  pidY :: PIDController
  pidZ :: PIDController

text \<open>
  \<open>createAliens\<close>: the alien of index \<open>i\<close>, from the four \<open>Math.random()\<close> draws of
  its loop iteration (radius, height, first shot, shot interval), in the order drawn.
\<close>

definition createAlien :: "nat \<Rightarrow> jsnum \<Rightarrow> jsnum \<Rightarrow> jsnum \<Rightarrow> jsnum \<Rightarrow> alien" where
  "createAlien i r1 r2 r3 r4 =
     (let angle = Fin (real i) / ALIEN_COUNT * Fin pi * Fin 2;
          radius = Fin 25 + r1 * Fin 15;
          x = Math_cos angle * radius;
          z = Math_sin angle * radius;
          y = Fin 3 + r2 * Fin 5
      in \<lparr>position = Vec x y z, visible = True, alive = True, baseY = y,
          lastShot = r3 * Fin 2000,
          shotInterval = ALIEN_FIRE_RATE_MIN + r4 * (ALIEN_FIRE_RATE_MAX - ALIEN_FIRE_RATE_MIN)\<rparr>)"

definition createLaser :: "Vector3 \<Rightarrow> Vector3 \<Rightarrow> laser" where
  "createLaser start target =
     \<lparr>mesh_position = start, direction = normalize (subVectors target start),
      speed = LASER_SPEED, distance = Fin 0, counted = False\<rparr>"

text \<open>
  The state after the constructor and \<open>init\<close>, for the aliens that \<open>createAliens\<close>
  made: the craft at \<open>(0, 10, 0)\<close>, no laser, the three controllers with the configured
  gains and the default output cap of 80.
\<close>

definition new_GameEngine :: "alien list \<Rightarrow> engine" where
  "new_GameEngine as =
     \<lparr>uap_position = Vec (Fin 0) (Fin 10) (Fin 0),
      uapVelocity = Vec (Fin 0) (Fin 0) (Fin 0),
      aliens = as, lasers = [],
      shields = SHIELD_MAX, boost = Fin 100, survivalTime = Fin 0, evadeCount = 0,
      isBoosting = False, autopilot = True,
      gameStarted = False, gamePaused = False, gameOver = False, disposed = False,
      keys = (\<lambda>code. False),
      pidX = new_PIDController (Fin 10) (Fin 0.5) (Fin 5) (Fin 80),
      pidY = new_PIDController (Fin 12) (Fin 0.8) (Fin 6) (Fin 80),
      pidZ = new_PIDController (Fin 10) (Fin 0.5) (Fin 5) (Fin 80)\<rparr>"

subsection \<open>calculateEvadeTarget\<close>

definition avoid_laser :: "Vector3 \<Rightarrow> Vector3 \<Rightarrow> laser \<Rightarrow> Vector3" where
  "avoid_laser upos dangerDirection l =
     (let toUAP = subVectors upos (mesh_position l);
          dist = length_v toUAP
      in if dist < Fin 20
         then add_v dangerDirection (multiplyScalar (normalize toUAP) (Fin 20 / (dist + Fin 1)))
         else dangerDirection)"

definition avoid_alien :: "Vector3 \<Rightarrow> Vector3 \<Rightarrow> alien \<Rightarrow> Vector3" where
  "avoid_alien upos dangerDirection a =
     (if \<not> alive a then dangerDirection
      else let toUAP = subVectors upos (position a);
               dist = length_v toUAP
           in if dist < Fin 15
              then add_v dangerDirection (multiplyScalar (normalize toUAP) (Fin 10 / (dist + Fin 1)))
              else dangerDirection)"

text \<open>The two \<open>forEach\<close> loops: the vector accumulated in \<open>dangerDirection\<close>.\<close>

definition dangerDirection :: "engine \<Rightarrow> Vector3" where
  "dangerDirection s =
     foldl (avoid_alien (uap_position s))
       (foldl (avoid_laser (uap_position s)) (Vec (Fin 0) (Fin 0) (Fin 0)) (lasers s))
       (aliens s)"

text \<open>
  \<open>dangerDirection.multiplyScalar(2)\<close> scales the vector in place, so the later test
  \<open>dangerDirection.length() < 1\<close> reads the doubled vector \<open>dd\<close>.
\<close>

definition calculateEvadeTarget :: "engine \<Rightarrow> Vector3" where
  "calculateEvadeTarget s =
     (let dd = multiplyScalar (dangerDirection s) (Fin 2);
          target = add_v (uap_position s) dd;
          target = target\<lparr>vy := Math_max (Fin 5) (Math_min (Fin 25)
                     (vy target + (Fin 15 - vy (uap_position s)) * Fin 0.1))\<rparr>;
          target = target\<lparr>vx := Math_max (- WORLD_BOUNDS_x * Fin 0.7)
                     (Math_min (WORLD_BOUNDS_x * Fin 0.7) (vx target))\<rparr>;
          target = target\<lparr>vz := Math_max (- WORLD_BOUNDS_z * Fin 0.7)
                     (Math_min (WORLD_BOUNDS_z * Fin 0.7) (vz target))\<rparr>
      in if length_v dd < Fin 1
         then target\<lparr>vx := vx target + Math_sin (survivalTime s * Fin 0.5) * Fin 10,
                     vz := vz target + Math_cos (survivalTime s * Fin 0.7) * Fin 10,
                     vy := Fin 10 + Math_sin (survivalTime s * Fin 0.3) * Fin 5\<rparr>
         else target)"

subsection \<open>Commands\<close>

definition endGame :: "engine \<Rightarrow> engine" where
  "endGame s = s\<lparr>gameOver := True\<rparr>"

definition start :: "bool \<Rightarrow> engine \<Rightarrow> engine" where
  "start isAutopilot s =
     s\<lparr>autopilot := isAutopilot, gameStarted := True, gamePaused := False, gameOver := False\<rparr>"

definition togglePause :: "engine \<Rightarrow> engine" where
  "togglePause s =
     (if \<not> gameStarted s \<or> gameOver s then s else s\<lparr>gamePaused := \<not> gamePaused s\<rparr>)"

definition toggleAutopilot :: "engine \<Rightarrow> engine" where
  "toggleAutopilot s =
     s\<lparr>autopilot := \<not> autopilot s, pidX := reset (pidX s), pidY := reset (pidY s),
       pidZ := reset (pidZ s)\<rparr>"

text \<open>
  \<open>restart\<close> calls \<open>Math.random()\<close> once for each alien, in the order of the list:
  \<open>rnd i\<close> is the draw made for the alien of index \<open>i\<close>.
\<close>

fun reset_aliens :: "(nat \<Rightarrow> jsnum) \<Rightarrow> nat \<Rightarrow> alien list \<Rightarrow> alien list" where
  "reset_aliens rnd i [] = []"
| "reset_aliens rnd i (a # as) =
     a\<lparr>alive := True, visible := True, lastShot := rnd i * Fin 2000\<rparr>
       # reset_aliens rnd (Suc i) as"

definition restart :: "(nat \<Rightarrow> jsnum) \<Rightarrow> engine \<Rightarrow> engine" where
  "restart rnd s =
     s\<lparr>shields := SHIELD_MAX, boost := Fin 100, survivalTime := Fin 0, evadeCount := 0,
       uap_position := Vec (Fin 0) (Fin 10) (Fin 0),
       uapVelocity := Vec (Fin 0) (Fin 0) (Fin 0),
       aliens := reset_aliens rnd 0 (aliens s),
       lasers := [],
       pidX := reset (pidX s), pidY := reset (pidY s), pidZ := reset (pidZ s),
       gameStarted := True, gamePaused := False, gameOver := False\<rparr>"

definition quit :: "(nat \<Rightarrow> jsnum) \<Rightarrow> engine \<Rightarrow> engine" where
  "quit rnd s = (restart rnd s)\<lparr>gameStarted := False\<rparr>"

subsection \<open>update, block by block\<close>

text \<open>Boost management.\<close>

definition update_boost :: "jsnum \<Rightarrow> engine \<Rightarrow> engine" where
  "update_boost dt s =
     (let s = s\<lparr>isBoosting := (keys s ''KeyE'' \<and> Fin 0 < boost s)\<rparr>
      in if isBoosting s then s\<lparr>boost := Math_max (Fin 0) (boost s - UAP_BOOST_DRAIN * dt)\<rparr>
         else if boost s < Fin 100
         then s\<lparr>boost := Math_min (Fin 100) (boost s + UAP_BOOST_RECHARGE * dt)\<rparr>
         else s)"

text \<open>The force of the autopilot: the three controllers, each on its axis of the error.\<close>

definition autopilot_force :: "jsnum \<Rightarrow> engine \<Rightarrow> Vector3 \<times> engine" where
  "autopilot_force dt s =
     (let target = calculateEvadeTarget s;
          (cx, fx) = calculate (pidX s) (vx target - vx (uap_position s)) dt;
          (cy, fy) = calculate (pidY s) (vy target - vy (uap_position s)) dt;
          (cz, fz) = calculate (pidZ s) (vz target - vz (uap_position s)) dt
      in (Vec fx fy fz, s\<lparr>pidX := cx, pidY := cy, pidZ := cz\<rparr>))"

text \<open>The force of manual control, from the keys held.\<close>

definition manual_force :: "(string \<Rightarrow> bool) \<Rightarrow> jsnum \<Rightarrow> Vector3" where
  "manual_force k thrust =
     (let force = Vec (Fin 0) (Fin 0) (Fin 0);
          force = (if k ''KeyW'' then force\<lparr>vz := vz force - thrust\<rparr> else force);
          force = (if k ''KeyS'' then force\<lparr>vz := vz force + thrust\<rparr> else force);
          force = (if k ''KeyA'' then force\<lparr>vx := vx force - thrust\<rparr> else force);
          force = (if k ''KeyD'' then force\<lparr>vx := vx force + thrust\<rparr> else force);
          force = (if k ''Space'' then force\<lparr>vy := vy force + thrust\<rparr> else force);
          force = (if k ''ShiftLeft'' \<or> k ''ShiftRight''
                   then force\<lparr>vy := vy force - thrust * Fin 0.5\<rparr> else force)
      in force\<lparr>vy := vy force + (UAP_GRAVITY + UAP_HOVER_FORCE)\<rparr>)"

text \<open>Apply physics, then bounds checking.\<close>

definition apply_physics :: "Vector3 \<Rightarrow> jsnum \<Rightarrow> engine \<Rightarrow> engine" where
  "apply_physics force dt s =
     (let vel = add_v (uapVelocity s) (multiplyScalar force dt);
          vel = multiplyScalar vel UAP_DAMPING;
          pos = add_v (uap_position s) (multiplyScalar vel dt);
          (pos, vel) = (if vy pos < WORLD_BOUNDS_y_min
                        then (pos\<lparr>vy := WORLD_BOUNDS_y_min\<rparr>, vel\<lparr>vy := Math_max (Fin 0) (vy vel)\<rparr>)
                        else (pos, vel));
          pos = (if WORLD_BOUNDS_y_max < vy pos then pos\<lparr>vy := WORLD_BOUNDS_y_max\<rparr> else pos);
          pos = pos\<lparr>vx := Math_max (- WORLD_BOUNDS_x) (Math_min WORLD_BOUNDS_x (vx pos))\<rparr>;
          pos = pos\<lparr>vz := Math_max (- WORLD_BOUNDS_z) (Math_min WORLD_BOUNDS_z (vz pos))\<rparr>
      in s\<lparr>uap_position := pos, uapVelocity := vel\<rparr>)"

text \<open>Shield regeneration.\<close>

definition regen_shields :: "jsnum \<Rightarrow> engine \<Rightarrow> engine" where
  "regen_shields dt s =
     (if shields s < SHIELD_MAX
      then s\<lparr>shields := Math_min SHIELD_MAX (shields s + SHIELD_REGEN * dt)\<rparr> else s)"

text \<open>
  Update aliens: the body of the \<open>forEach\<close> for the alien of index \<open>index\<close>; \<open>now\<close> is
  \<open>performance.now()\<close>. A shot appends a laser to \<open>lasers\<close>.
\<close>

definition alien_body :: "jsnum \<Rightarrow> jsnum \<Rightarrow> nat \<Rightarrow> alien \<Rightarrow> engine \<Rightarrow> alien \<times> engine" where
  "alien_body now time index a s =
     (if \<not> alive a then (a, s)
      else let a = a\<lparr>position := (position a)
                      \<lparr>vy := baseY a + Math_sin (time * Fin 2 + Fin (real index)) * Fin 0.5\<rparr>\<rparr>;
               dist = distanceTo (position a) (uap_position s)
           in if dist < ALIEN_RANGE \<and> shotInterval a < now - lastShot a
              then let a = a\<lparr>lastShot := now\<rparr>;
                       aim = uap_position s;
                       aim = (if \<not> autopilot s
                              then add_v aim (multiplyScalar (uapVelocity s) (Fin 0.2)) else aim)
                   in (a, s\<lparr>lasers := lasers s @ [createLaser (position a) aim]\<rparr>)
              else (a, s))"

fun update_aliens :: "jsnum \<Rightarrow> jsnum \<Rightarrow> nat \<Rightarrow> alien list \<Rightarrow> engine \<Rightarrow> alien list \<times> engine" where
  "update_aliens now time index [] s = ([], s)"
| "update_aliens now time index (a # as) s =
     (let (a', s1) = alien_body now time index a s;
          (as', s2) = update_aliens now time (Suc index) as s1
      in (a' # as', s2))"

text \<open>
  Update lasers. The body of the \<open>for\<close> loop for one laser, in three parts: the laser
  advances; it is tested against the craft (a hit, or a near miss counted once); an old
  laser is removed. The result is \<open>None\<close> when the laser is spliced out of the list.
\<close>

definition advance_laser :: "jsnum \<Rightarrow> laser \<Rightarrow> laser" where
  "advance_laser dt l =
     (let l = l\<lparr>distance := distance l + speed l * dt\<rparr>
      in l\<lparr>mesh_position :=
             add_v (mesh_position l) (multiplyScalar (direction l) (speed l * dt))\<rparr>)"

definition expired :: "laser \<Rightarrow> bool" where
  "expired l \<longleftrightarrow> LASER_MAX_DISTANCE < distance l \<or> vy (mesh_position l) < Fin 0"

definition laser_body :: "jsnum \<Rightarrow> laser \<Rightarrow> engine \<Rightarrow> laser option \<times> engine" where
  "laser_body dt l s =
     (let l = advance_laser dt l;
          distanceToUAP = distanceTo (mesh_position l) (uap_position s)
      in if distanceToUAP < Fin 1.8
         then let s = s\<lparr>shields := Math_max (Fin 0) (shields s - LASER_DAMAGE)\<rparr>
              in (None, if shields s \<le> Fin 0 then endGame s else s)
         else let (l, s) = (if distanceToUAP < Fin 4 \<and> Fin 1.8 < distanceToUAP \<and> \<not> counted l
                            then (l\<lparr>counted := True\<rparr>, s\<lparr>evadeCount := Suc (evadeCount s)\<rparr>)
                            else (l, s))
              in if expired l then (None, s) else (Some l, s))"

text \<open>
  The loop runs from the last index down to 0, so the tail of the list is processed
  before its head; a splice at the current index leaves the lower indices in place.
\<close>

fun update_lasers :: "jsnum \<Rightarrow> laser list \<Rightarrow> engine \<Rightarrow> laser list \<times> engine" where
  "update_lasers dt [] s = ([], s)"
| "update_lasers dt (l # ls) s =
     (let (ls', s1) = update_lasers dt ls s;
          (r, s2) = laser_body dt l s1
      in (case r of None \<Rightarrow> ls' | Some l' \<Rightarrow> l' # ls', s2))"

definition update :: "jsnum \<Rightarrow> jsnum \<Rightarrow> jsnum \<Rightarrow> engine \<Rightarrow> engine" where
  "update dt time now s =
     (let s = s\<lparr>survivalTime := survivalTime s + dt\<rparr>;
          s = update_boost dt s;
          thrust = (if isBoosting s then UAP_BOOST_THRUST else UAP_THRUST);
          (force, s) = (if autopilot s then autopilot_force dt s
                        else (manual_force (keys s) thrust, s));
          s = apply_physics force dt s;
          s = regen_shields dt s;
          (as, s) = update_aliens now time 0 (aliens s) s;
          s = s\<lparr>aliens := as\<rparr>;
          (ls, s) = update_lasers dt (lasers s) s
      in s\<lparr>lasers := ls\<rparr>)"

text \<open>
  One frame: \<open>delta\<close> is \<open>clock.getDelta()\<close>, \<open>time\<close> is \<open>clock.getElapsedTime()\<close>.
\<close>

definition animate :: "jsnum \<Rightarrow> jsnum \<Rightarrow> jsnum \<Rightarrow> engine \<Rightarrow> engine" where
  "animate delta time now s =
     (if disposed s then s
      else let dt = Math_min delta (Fin 0.1)
           in if gameStarted s \<and> \<not> gamePaused s \<and> \<not> gameOver s
              then update dt time now s else s)"

definition dispose :: "engine \<Rightarrow> engine" where
  "dispose s = s\<lparr>disposed := True\<rparr>"

subsection \<open>One laser over its frames\<close>

text \<open>
  The life of one laser: the loop body applied to it frame after frame, until it is
  spliced out. A frame is the \<open>dt\<close> of the frame and the position of the craft when the
  laser loop runs (the physics step of the same \<open>update\<close> has already moved the craft).
\<close>

fun laser_life :: "(jsnum \<times> Vector3) list \<Rightarrow> laser \<Rightarrow> engine \<Rightarrow> laser option \<times> engine" where
  "laser_life [] l s = (Some l, s)"
| "laser_life ((dt, upos) # frames) l s =
     (case laser_body dt l (s\<lparr>uap_position := upos\<rparr>) of
        (None, s') \<Rightarrow> (None, s')
      | (Some l', s') \<Rightarrow> laser_life frames l' s')"

text \<open>
  What a laser does over its frames, read off its positions alone: it never comes inside
  the hit radius while it lives; it is, in some frame of its life, between the hit radius
  and the near-miss radius.
\<close>

fun never_hit :: "(jsnum \<times> Vector3) list \<Rightarrow> laser \<Rightarrow> bool" where
  "never_hit [] l = True"
| "never_hit ((dt, upos) # frames) l =
     (let l' = advance_laser dt l
      in \<not> distanceTo (mesh_position l') upos < Fin 1.8 \<and> (expired l' \<or> never_hit frames l'))"

fun in_band_sometime :: "(jsnum \<times> Vector3) list \<Rightarrow> laser \<Rightarrow> bool" where
  "in_band_sometime [] l = False"
| "in_band_sometime ((dt, upos) # frames) l =
     (let l' = advance_laser dt l; d = distanceTo (mesh_position l') upos
      in (Fin 1.8 < d \<and> d < Fin 4) \<or> (\<not> expired l' \<and> in_band_sometime frames l'))"

section \<open>Finite states\<close>

text \<open>A vector of three finite numbers.\<close>

definition isFinite_v :: "Vector3 \<Rightarrow> bool" where
  "isFinite_v v \<longleftrightarrow> isFinite (vx v) \<and> isFinite (vy v) \<and> isFinite (vz v)"

text \<open>
  A state whose positions and clock are finite numbers: the craft, every laser, every
  alien, and the survival time.
\<close>

definition isFinite_world :: "engine \<Rightarrow> bool" where
  "isFinite_world s \<longleftrightarrow>
     isFinite_v (uap_position s) \<and> isFinite (survivalTime s) \<and>
     (\<forall>l\<in>set (lasers s). isFinite_v (mesh_position l)) \<and>
     (\<forall>a\<in>set (aliens s). isFinite_v (position a))"

text \<open>
  A margin against overflow. The largest double is about \<open>1.8 * 10^308\<close>. When the
  gains, the errors and the accumulated state of a controller are at most \<open>10^100\<close> in
  magnitude and \<open>dt\<close> is between \<open>10^-100\<close> and \<open>10^100\<close> in magnitude, no product, sum
  or quotient that \<open>calculate\<close> forms exceeds three times the cube of that limit, which
  is \<open>3 * 10^300\<close> (lemmas \<open>terms_below_overflow\<close> and \<open>no_overflow_limit_cube\<close>), so
  the doubles the program computes with stay finite.
\<close>

definition no_overflow_limit :: real where
  "no_overflow_limit = 10 ^ 100"

text \<open>The arena: altitude between floor and ceiling, X and Z within their bounds.\<close>

definition in_arena :: "Vector3 \<Rightarrow> bool" where
  "in_arena p \<longleftrightarrow>
     WORLD_BOUNDS_y_min \<le> vy p \<and> vy p \<le> WORLD_BOUNDS_y_max \<and>
     - WORLD_BOUNDS_x \<le> vx p \<and> vx p \<le> WORLD_BOUNDS_x \<and>
     - WORLD_BOUNDS_z \<le> vz p \<and> vz p \<le> WORLD_BOUNDS_z"

text \<open>
  The force that \<open>update\<close> hands to its physics block: the value of \<open>force\<close> after the
  movement calculation, which follows the clock and boost blocks.
\<close>

definition applied_force :: "jsnum \<Rightarrow> engine \<Rightarrow> Vector3" where
  "applied_force dt s =
     (let s = s\<lparr>survivalTime := survivalTime s + dt\<rparr>;
          s = update_boost dt s;
          thrust = (if isBoosting s then UAP_BOOST_THRUST else UAP_THRUST)
      in fst (if autopilot s then autopilot_force dt s else (manual_force (keys s) thrust, s)))"

section \<open>Concrete data for the examples\<close>

text \<open>The controller of the X axis, as the engine's constructor builds it.\<close>

definition pid_X :: PIDController where
  "pid_X = new_PIDController (Fin 10) (Fin 0.5) (Fin 5) (Fin 80)"

text \<open>
  An alien made by \<open>createAliens\<close> at index 0 with the draws 0.5, 0.5, 0.5 and 0.75 (it
  stands at \<open>(32.5, 5.5, 0)\<close> and its shot interval is 4000 ms), and a running game with
  this alien in which the craft has taken damage and dodged lasers.
\<close>

definition alien0 :: alien where
  "alien0 = createAlien 0 (Fin 0.5) (Fin 0.5) (Fin 0.5) (Fin 0.75)"

definition laser0 :: laser where
  "laser0 = createLaser (Vec (Fin 0) (Fin 10) (Fin 20)) (Vec (Fin 0) (Fin 10) (Fin 0))"

definition game0 :: engine where
  "game0 = (start True (new_GameEngine [alien0]))
     \<lparr>shields := Fin 46, survivalTime := Fin 12, evadeCount := 3, lasers := [laser0]\<rparr>"

text \<open>A game just started in autopilot mode, the alien \<open>alien0\<close> far from the craft.\<close>

definition fresh_game :: engine where
  "fresh_game = start True (new_GameEngine [alien0])"

text \<open>A game started in manual mode, the forward key held.\<close>

definition manual_game :: engine where
  "manual_game = (start False (new_GameEngine [alien0]))\<lparr>keys := (\<lambda>code. code = ''KeyW'')\<rparr>"

text \<open>
  A controller whose proportional and derivative gains are \<open>Infinity\<close>: the value a gain
  takes once it is beyond the range of doubles.
\<close>

definition pid_huge :: PIDController where
  "pid_huge = new_PIDController PInf (Fin 0.5) PInf (Fin 80)"

text \<open>
  A laser that passes the craft (held at \<open>(0, 10, 0)\<close>) at a lateral distance of 3, going
  straight down, over two frames of 20 ms and two of 100 ms; and the laser \<open>laser0\<close> two
  frames of 100 ms after it was fired at the craft, 8 units away from it.
\<close>

definition craft0 :: Vector3 where
  "craft0 = Vec (Fin 0) (Fin 10) (Fin 0)"

definition laser2 :: laser where
  "laser2 = \<lparr>mesh_position = Vec (Fin 3) (Fin 11.2) (Fin 0),
     direction = Vec (Fin 0) (Fin (- 1)) (Fin 0),
     speed = LASER_SPEED, distance = Fin 0, counted = False\<rparr>"

definition frames2 :: "(jsnum \<times> Vector3) list" where
  "frames2 = [(Fin 0.02, craft0), (Fin 0.02, craft0), (Fin 0.1, craft0), (Fin 0.1, craft0)]"

definition laser1 :: laser where
  "laser1 = \<lparr>mesh_position = Vec (Fin 0) (Fin 10) (Fin 8),
     direction = Vec (Fin 0) (Fin 0) (Fin (- 1)),
     speed = LASER_SPEED, distance = Fin 12, counted = False\<rparr>"

text \<open>
  States for \<open>calculateEvadeTarget\<close>. \<open>game_edge\<close>: the craft near the rim at
  \<open>(0, 10, 42)\<close>, no laser, the alien far away, after \<open>20\<pi>/7\<close> seconds. \<open>game_threat\<close>:
  the laser \<open>laser1\<close> 8 units from the craft. \<open>patrol_a\<close> and \<open>patrol_b\<close>: no threat
  nearby, the same clock, the craft at \<open>(0, 10, 0)\<close> and at \<open>(5, 10, 0)\<close>. \<open>near_alien\<close>:
  the craft 14 units above the alien.
\<close>

definition game_edge :: engine where
  "game_edge = (start True (new_GameEngine [alien0]))
     \<lparr>uap_position := Vec (Fin 0) (Fin 10) (Fin 42), survivalTime := Fin (20 * pi / 7)\<rparr>"

definition game_threat :: engine where
  "game_threat = game0\<lparr>lasers := [laser1]\<rparr>"

definition patrol_a :: engine where
  "patrol_a = (start True (new_GameEngine [alien0]))\<lparr>survivalTime := Fin 12\<rparr>"

definition patrol_b :: engine where
  "patrol_b = patrol_a\<lparr>uap_position := Vec (Fin 5) (Fin 10) (Fin 0)\<rparr>"

definition near_alien :: engine where
  "near_alien = patrol_a\<lparr>uap_position := Vec (Fin 32.5) (Fin 19.5) (Fin 0)\<rparr>"

section \<open>Arithmetic on finite numbers\<close>

lemmas GAME_CONFIG =
  ALIEN_COUNT_def ALIEN_FIRE_RATE_MIN_def ALIEN_FIRE_RATE_MAX_def ALIEN_RANGE_def LASER_SPEED_def
  LASER_MAX_DISTANCE_def LASER_DAMAGE_def UAP_THRUST_def UAP_BOOST_THRUST_def
  UAP_BOOST_DRAIN_def UAP_BOOST_RECHARGE_def UAP_GRAVITY_def UAP_HOVER_FORCE_def
  UAP_DAMPING_def SHIELD_MAX_def SHIELD_REGEN_def WORLD_BOUNDS_x_def WORLD_BOUNDS_y_min_def
  WORLD_BOUNDS_y_max_def WORLD_BOUNDS_z_def

lemma isFinite_iff: "isFinite a \<longleftrightarrow> (\<exists>r. a = Fin r)"
  by (cases a) simp_all

lemma le_Fin [simp]: "(Fin a \<le> Fin b) = (a \<le> b)"
  by (auto simp: less_eq_jsnum_def)

lemma minus_Fin [simp]: "Fin a - Fin b = Fin (a - b)"
  by (simp add: minus_jsnum_def)

lemma Math_max_Fin [simp]: "Math_max (Fin a) (Fin b) = Fin (max a b)"
  by (simp add: max_def)

lemma Math_min_Fin [simp]: "Math_min (Fin a) (Fin b) = Fin (min a b)"
  by (simp add: min_def)

section \<open>The evasion target\<close>

lemma isFinite_vE:
  assumes "isFinite_v v"
  obtains a b c where "v = \<lparr>vx = Fin a, vy = Fin b, vz = Fin c\<rparr>"
proof -
  from assms obtain a b c where "vx v = Fin a" "vy v = Fin b" "vz v = Fin c"
    unfolding isFinite_v_def isFinite_iff by blast
  then have "v = \<lparr>vx = Fin a, vy = Fin b, vz = Fin c\<rparr>" by (cases v) simp
  then show thesis by (rule that)
qed

lemma sum_squares_nonneg: "0 \<le> a * a + b * b + c * (c::real)"
  by (intro add_nonneg_nonneg) simp_all

lemma length_v_Fin:
  "length_v \<lparr>vx = Fin a, vy = Fin b, vz = Fin c\<rparr> = Fin (sqrt (a * a + b * b + c * c))"
proof -
  have "\<not> a * a + b * b + c * c < 0"
    using sum_squares_nonneg [of a b c] by linarith
  then show ?thesis by (simp add: length_v_def)
qed

lemma normalize_Fin:
  "isFinite_v (normalize \<lparr>vx = Fin a, vy = Fin b, vz = Fin c\<rparr>)"
  by (simp add: normalize_def divideScalar_def js_or_def length_v_Fin multiplyScalar_def isFinite_v_def)

lemma threat_weight_Fin:
  assumes "0 \<le> d"
  shows "Fin k / (Fin d + Fin 1) = Fin (k / (d + 1))"
  using assms by simp

lemma isFinite_v_add: "isFinite_v a \<Longrightarrow> isFinite_v b \<Longrightarrow> isFinite_v (add_v a b)"
  by (auto simp: isFinite_v_def isFinite_iff add_v_def)

lemma isFinite_v_sub: "isFinite_v a \<Longrightarrow> isFinite_v b \<Longrightarrow> isFinite_v (subVectors a b)"
  by (auto simp: isFinite_v_def isFinite_iff subVectors_def)

lemma isFinite_v_scale: "isFinite_v a \<Longrightarrow> isFinite_v (multiplyScalar a (Fin k))"
  by (auto simp: isFinite_v_def isFinite_iff multiplyScalar_def)

lemma threat_term_finite:
  assumes "isFinite_v u" "isFinite_v p"
  shows "isFinite_v (multiplyScalar (normalize (subVectors u p))
            (Fin k / (length_v (subVectors u p) + Fin 1)))"
proof -
  from isFinite_v_sub [OF assms] obtain a b c
    where v: "subVectors u p = \<lparr>vx = Fin a, vy = Fin b, vz = Fin c\<rparr>"
    by (rule isFinite_vE)
  have "0 \<le> sqrt (a * a + b * b + c * c)"
    using sum_squares_nonneg [of a b c] by (simp only: real_sqrt_ge_zero)
  then have "Fin k / (length_v (subVectors u p) + Fin 1) = Fin (k / (sqrt (a * a + b * b + c * c) + 1))"
    unfolding v length_v_Fin by (rule threat_weight_Fin)
  then show ?thesis
    unfolding v using normalize_Fin [of a b c] by (simp add: isFinite_v_scale)
qed

lemma avoid_laser_finite:
  assumes "isFinite_v u" "isFinite_v dd" "isFinite_v (mesh_position l)"
  shows "isFinite_v (avoid_laser u dd l)"
  using assms threat_term_finite [of u "mesh_position l" 20]
  by (simp add: avoid_laser_def Let_def isFinite_v_add)

lemma avoid_alien_finite:
  assumes "isFinite_v u" "isFinite_v dd" "isFinite_v (position a)"
  shows "isFinite_v (avoid_alien u dd a)"
  using assms threat_term_finite [of u "position a" 10]
  by (simp add: avoid_alien_def Let_def isFinite_v_add)

lemma foldl_avoid_laser_finite:
  assumes "isFinite_v u" "isFinite_v dd" "\<forall>l\<in>set ls. isFinite_v (mesh_position l)"
  shows "isFinite_v (foldl (avoid_laser u) dd ls)"
  using assms(2,3)
  by (induction ls arbitrary: dd) (simp_all add: avoid_laser_finite [OF assms(1)])

lemma foldl_avoid_alien_finite:
  assumes "isFinite_v u" "isFinite_v dd" "\<forall>a\<in>set as. isFinite_v (position a)"
  shows "isFinite_v (foldl (avoid_alien u) dd as)"
  using assms(2,3)
  by (induction as arbitrary: dd) (simp_all add: avoid_alien_finite [OF assms(1)])

lemma dangerDirection_finite:
  assumes "isFinite_world s"
  shows "isFinite_v (dangerDirection s)"
  using assms unfolding dangerDirection_def isFinite_world_def
  by (intro foldl_avoid_alien_finite foldl_avoid_laser_finite) (simp_all add: isFinite_v_def Vec_def)

lemma length_v_double:
  "length_v (multiplyScalar \<lparr>vx = Fin a, vy = Fin b, vz = Fin c\<rparr> (Fin 2)) =
     Fin (2 * sqrt (a * a + b * b + c * c))"
proof -
  have "(a * 2) * (a * 2) + (b * 2) * (b * 2) + (c * 2) * (c * 2) = 4 * (a * a + b * b + c * c)"
    by algebra
  then have "sqrt ((a * 2) * (a * 2) + (b * 2) * (b * 2) + (c * 2) * (c * 2)) =
      2 * sqrt (a * a + b * b + c * c)"
    by (simp only: real_sqrt_mult real_sqrt_four)
  then show ?thesis
    by (simp only: multiplyScalar_def length_v_Fin Vector3.simps times_jsnum.simps)
qed

lemma calculateEvadeTarget_Fin:
  assumes "uap_position s = \<lparr>vx = Fin px, vy = Fin py, vz = Fin pz\<rparr>"
    and "dangerDirection s = \<lparr>vx = Fin a, vy = Fin b, vz = Fin c\<rparr>"
    and "survivalTime s = Fin t"
  shows "calculateEvadeTarget s =
    (if 2 * sqrt (a * a + b * b + c * c) < 1
     then \<lparr>vx = Fin (max (- 42) (min 42 (px + a * 2)) + sin (t * 0.5) * 10),
           vy = Fin (10 + sin (t * 0.3) * 5),
           vz = Fin (max (- 42) (min 42 (pz + c * 2)) + cos (t * 0.7) * 10)\<rparr>
     else \<lparr>vx = Fin (max (- 42) (min 42 (px + a * 2))),
           vy = Fin (max 5 (min 25 (py + b * 2 + (15 - py) * 0.1))),
           vz = Fin (max (- 42) (min 42 (pz + c * 2)))\<rparr>)"
proof -
  have len: "length_v (multiplyScalar (dangerDirection s) (Fin 2)) = Fin (2 * sqrt (a * a + b * b + c * c))"
    unfolding assms(2) by (rule length_v_double)
  show ?thesis
    unfolding calculateEvadeTarget_def Let_def len
    by (simp add: assms add_v_def multiplyScalar_def GAME_CONFIG)
qed

lemma patrol_offset_bounds:
  fixes x :: real
  assumes "- 42 \<le> x" "x \<le> 42" "- 1 \<le> w" "w \<le> 1"
  shows "- 52 \<le> x + w * 10 \<and> x + w * 10 \<le> 52"
  using assms by linarith

lemma sqrt_less_iff_sq: "0 \<le> c \<Longrightarrow> sqrt q < c \<longleftrightarrow> q < c * c"
  using real_sqrt_less_iff [of q "c * c"] by simp

lemma sqrt_64: "sqrt 64 = 8"
  by (rule real_sqrt_unique) simp_all

lemma sqrt_196: "sqrt 196 = 14"
  by (rule real_sqrt_unique) simp_all

lemma alien0_position: "position alien0 = Vec (Fin 32.5) (Fin 5.5) (Fin 0)"
  by (simp add: alien0_def createAlien_def Let_def Vec_def GAME_CONFIG)

lemma alien0_alive: "alive alien0"
  by (simp add: alien0_def createAlien_def Let_def)

lemmas evade_eval = calculateEvadeTarget_def dangerDirection_def avoid_alien_def avoid_laser_def
  Let_def subVectors_def add_v_def multiplyScalar_def length_v_def normalize_def divideScalar_def
  js_or_def Vec_def GAME_CONFIG start_def new_GameEngine_def alien0_position alien0_alive
  sqrt_less_iff_sq

lemma length_v_less_finite:
  assumes "length_v v < Fin r"
  shows "isFinite_v v"
  using assms
  by (cases "vx v"; cases "vy v"; cases "vz v")
     (simp_all add: length_v_def isFinite_v_def signed_inf_def)

text \<open>
  C3, as stated, fails: the patrol offset is added to X and Z after they are clamped. With
  the craft at \<open>z = 42\<close>, no threat nearby and \<open>cos (0.7 t) = 1\<close>, the target has
  \<open>z = 52\<close>, beyond 70% of the bound.
\<close>

theorem evade_target_beyond_soft_bound_counterexample:
  "vz (calculateEvadeTarget game_edge) = Fin 52 \<and>
   \<not> vz (calculateEvadeTarget game_edge) \<le> Fin 42"
  by (simp add: game_edge_def evade_eval)

text \<open>
  C3, amended. For every finite configuration of craft, lasers, aliens and elapsed time,
  the target has its Y within \<open>[5, 25]\<close> and its X and Z within \<open>\<plusminus>52\<close> (70% of the
  bound plus the patrol amplitude of 10); when the accumulated threat vector has magnitude
  at least 1, so that no patrol offset is added, X and Z are within \<open>\<plusminus>42\<close>.
\<close>

theorem evade_target_bounds:
  assumes "isFinite_world s"
  shows "Fin 5 \<le> vy (calculateEvadeTarget s) \<and> vy (calculateEvadeTarget s) \<le> Fin 25 \<and>
         Fin (- 52) \<le> vx (calculateEvadeTarget s) \<and> vx (calculateEvadeTarget s) \<le> Fin 52 \<and>
         Fin (- 52) \<le> vz (calculateEvadeTarget s) \<and> vz (calculateEvadeTarget s) \<le> Fin 52 \<and>
         (Fin 1 \<le> length_v (dangerDirection s) \<longrightarrow>
            Fin (- 42) \<le> vx (calculateEvadeTarget s) \<and> vx (calculateEvadeTarget s) \<le> Fin 42 \<and>
            Fin (- 42) \<le> vz (calculateEvadeTarget s) \<and> vz (calculateEvadeTarget s) \<le> Fin 42)"
proof -
  from assms obtain px py pz where p: "uap_position s = \<lparr>vx = Fin px, vy = Fin py, vz = Fin pz\<rparr>"
    unfolding isFinite_world_def by (blast elim: isFinite_vE)
  from dangerDirection_finite [OF assms] obtain a b c
    where d: "dangerDirection s = \<lparr>vx = Fin a, vy = Fin b, vz = Fin c\<rparr>"
    by (rule isFinite_vE)
  from assms obtain t where t: "survivalTime s = Fin t"
    unfolding isFinite_world_def isFinite_iff by blast
  note T = calculateEvadeTarget_Fin [OF p d t]
  let ?q = "sqrt (a * a + b * b + c * c)"
  have y: "(5::real) \<le> 10 + sin (t * 0.3) * 5 \<and> 10 + sin (t * 0.3) * 5 \<le> 25"
    using sin_ge_minus_one [of "t * 0.3"] sin_le_one [of "t * 0.3"] by linarith
  have x: "- 52 \<le> max (- 42) (min 42 (px + a * 2)) + sin (t * 0.5) * 10 \<and>
           max (- 42) (min 42 (px + a * 2)) + sin (t * 0.5) * 10 \<le> 52"
    using sin_ge_minus_one [of "t * 0.5"] sin_le_one [of "t * 0.5"]
    by (intro patrol_offset_bounds) simp_all
  have z: "- 52 \<le> max (- 42) (min 42 (pz + c * 2)) + cos (t * 0.7) * 10 \<and>
           max (- 42) (min 42 (pz + c * 2)) + cos (t * 0.7) * 10 \<le> 52"
    using cos_ge_minus_one [of "t * 0.7"] cos_le_one [of "t * 0.7"]
    by (intro patrol_offset_bounds) simp_all
  show ?thesis
  proof (cases "2 * ?q < 1")
    case True
    then have "\<not> 1 \<le> ?q" by linarith
    then have "\<not> Fin 1 \<le> length_v (dangerDirection s)"
      by (simp add: d length_v_Fin)
    with True x y z show ?thesis by (simp add: T)
  next
    case False
    have "- 52 \<le> max (- 42) (min 42 (px + a * 2)) \<and> min 42 (px + a * 2) \<le> 52 \<and>
          - 52 \<le> max (- 42) (min 42 (pz + c * 2)) \<and> min 42 (pz + c * 2) \<le> 52"
      by linarith
    with False show ?thesis by (simp add: T)
  qed
qed

text \<open>
  With \<open>laser1\<close> 8 units in front of the craft the threat vector is \<open>(0, 0, -20/9)\<close>, and
  the target is \<open>(0, 10.5, -40/9)\<close>.
\<close>

theorem evade_target_bounds_witness:
  "isFinite_world game_threat \<and>
   Fin 1 \<le> length_v (dangerDirection game_threat) \<and>
   calculateEvadeTarget game_threat = Vec (Fin 0) (Fin 10.5) (Fin (- 40 / 9)) \<and>
   Fin (- 42) \<le> vz (calculateEvadeTarget game_threat) \<and>
   vz (calculateEvadeTarget game_threat) \<le> Fin 42"
  using evade_target_bounds [of game_threat]
  by (simp add: game_threat_def game0_def laser1_def evade_eval isFinite_world_def isFinite_v_def sqrt_64)

text \<open>
  C4, as stated, fails twice. The patrol offsets are added to the clamped X and Z, which
  follow the craft: at the same clock and with no threat, the craft at \<open>x = 0\<close> and at
  \<open>x = 5\<close> gets targets whose X differ by 5. And the test for patrol reads the threat
  vector after it was doubled in place: 14 units above an alien the accumulated vector has
  magnitude \<open>2/3 < 1\<close>, yet the target's Y is \<open>1223/60\<close>, above every value of the patrol
  sinusoid.
\<close>

theorem patrol_target_counterexample:
  "length_v (dangerDirection patrol_a) < Fin 1 \<and>
   length_v (dangerDirection patrol_b) < Fin 1 \<and>
   survivalTime patrol_a = survivalTime patrol_b \<and>
   vx (calculateEvadeTarget patrol_a) = Fin (sin 6 * 10) \<and>
   vx (calculateEvadeTarget patrol_b) = Fin (5 + sin 6 * 10) \<and>
   vx (calculateEvadeTarget patrol_a) \<noteq> vx (calculateEvadeTarget patrol_b) \<and>
   length_v (dangerDirection near_alien) < Fin 1 \<and>
   vy (calculateEvadeTarget near_alien) = Fin (1223 / 60) \<and>
   vy (calculateEvadeTarget near_alien) \<noteq>
     Fin 10 + Math_sin (survivalTime near_alien * Fin 0.3) * Fin 5"
proof -
  have a: "length_v (dangerDirection patrol_a) < Fin 1 \<and>
      vx (calculateEvadeTarget patrol_a) = Fin (sin 6 * 10)"
    by (simp add: patrol_a_def evade_eval)
  have b: "length_v (dangerDirection patrol_b) < Fin 1 \<and>
      vx (calculateEvadeTarget patrol_b) = Fin (5 + sin 6 * 10)"
    by (simp add: patrol_b_def patrol_a_def evade_eval)
  have c: "length_v (dangerDirection near_alien) < Fin 1 \<and>
      vy (calculateEvadeTarget near_alien) = Fin (1223 / 60)"
    by (simp add: near_alien_def patrol_a_def evade_eval sqrt_196)
  have t: "survivalTime patrol_a = survivalTime patrol_b"
    "survivalTime near_alien = Fin 12"
    by (simp_all add: patrol_b_def near_alien_def patrol_a_def)
  have "300 * sin (18 / 5 :: real) \<noteq> 623"
    using sin_le_one [of "18 / 5 :: real"] by linarith
  then have "Fin (1223 / 60) \<noteq> Fin 10 + Math_sin (Fin 12 * Fin 0.3) * Fin 5"
    by simp
  with a b c t show ?thesis by simp
qed

text \<open>
  C4, amended. Whenever the accumulated threat vector's magnitude is below 0.5, the
  target's Y is \<open>10 + 5 sin (0.3 t)\<close>, a function of the elapsed time alone; its X and Z
  are the craft's position plus twice the threat vector, clamped to \<open>\<plusminus>42\<close>, plus
  \<open>10 sin (0.5 t)\<close> and \<open>10 cos (0.7 t)\<close>.
\<close>

theorem patrol_target:
  assumes "length_v (dangerDirection s) < Fin 0.5"
  shows "vy (calculateEvadeTarget s) = Fin 10 + Math_sin (survivalTime s * Fin 0.3) * Fin 5 \<and>
         vx (calculateEvadeTarget s) =
           Math_max (Fin (- 42)) (Math_min (Fin 42)
             (vx (uap_position s) + vx (dangerDirection s) * Fin 2))
           + Math_sin (survivalTime s * Fin 0.5) * Fin 10 \<and>
         vz (calculateEvadeTarget s) =
           Math_max (Fin (- 42)) (Math_min (Fin 42)
             (vz (uap_position s) + vz (dangerDirection s) * Fin 2))
           + Math_cos (survivalTime s * Fin 0.7) * Fin 10"
proof -
  from length_v_less_finite [OF assms] obtain a b c
    where d: "dangerDirection s = \<lparr>vx = Fin a, vy = Fin b, vz = Fin c\<rparr>"
    by (rule isFinite_vE)
  from assms have "sqrt (a * a + b * b + c * c) < 0.5"
    by (simp only: d length_v_Fin less_jsnum.simps)
  then have "2 * sqrt (a * a + b * b + c * c) < 1" by linarith
  then have patrol: "length_v (multiplyScalar (dangerDirection s) (Fin 2)) < Fin 1"
    by (simp only: d length_v_double less_jsnum.simps)
  show ?thesis
    unfolding calculateEvadeTarget_def Let_def
    by (simp add: patrol add_v_def GAME_CONFIG) (simp add: d multiplyScalar_def)
qed

text \<open>No threat near the craft at \<open>(0, 10, 0)\<close>, 12 seconds into the game.\<close>

theorem patrol_target_witness:
  "length_v (dangerDirection patrol_a) < Fin 0.5 \<and>
   calculateEvadeTarget patrol_a =
     Vec (Fin (sin 6 * 10)) (Fin (10 + sin (18 / 5) * 5)) (Fin (cos (42 / 5) * 10))"
  using patrol_target [of patrol_a]
  by (simp add: patrol_a_def evade_eval)

section \<open>The craft after one update\<close>

text \<open>
  The aliens and the lasers do not move the craft: after \<open>update\<close> it is where the physics
  block left it.
\<close>

lemma laser_body_position [simp]: "uap_position (snd (laser_body dt l s)) = uap_position s"
  by (simp add: laser_body_def Let_def endGame_def)

lemma laser_body_velocity [simp]: "uapVelocity (snd (laser_body dt l s)) = uapVelocity s"
  by (simp add: laser_body_def Let_def endGame_def)

lemma update_lasers_position [simp]:
  "uap_position (snd (update_lasers dt ls s)) = uap_position s"
  by (induction ls) (simp_all add: Let_def split_beta)

lemma alien_body_position [simp]: "uap_position (snd (alien_body now time i a s)) = uap_position s"
  by (simp add: alien_body_def Let_def)

lemma update_aliens_position [simp]:
  "uap_position (snd (update_aliens now time i as s)) = uap_position s"
  by (induction as arbitrary: i s) (simp_all add: Let_def split_beta)

lemma update_position:
  "uap_position (update dt time now s) =
     (let s1 = update_boost dt (s\<lparr>survivalTime := survivalTime s + dt\<rparr>);
          thrust = (if isBoosting s1 then UAP_BOOST_THRUST else UAP_THRUST);
          (force, s2) = (if autopilot s1 then autopilot_force dt s1
                         else (manual_force (keys s1) thrust, s1))
      in uap_position (apply_physics force dt s2))"
  by (simp add: update_def Let_def split_beta regen_shields_def)

lemma update_boost_craft [simp]:
  "uap_position (update_boost dt s) = uap_position s"
  "uapVelocity (update_boost dt s) = uapVelocity s"
  "autopilot (update_boost dt s) = autopilot s"
  by (simp_all add: update_boost_def Let_def)

text \<open>
  A frame whose delta is 0, on a game just started in autopilot mode: the target is
  \<open>(0, 10, 10)\<close>, the errors on X and Y are 0 as the previous errors are, and the craft
  ends at \<open>(NaN, NaN, 0)\<close>.
\<close>

lemma fresh_target: "calculateEvadeTarget (update_boost (Fin 0) (fresh_game\<lparr>survivalTime := survivalTime fresh_game + Fin 0\<rparr>))
   = Vec (Fin 0) (Fin 10) (Fin 10)"
  by (simp add: fresh_game_def update_boost_def evade_eval)

lemma zero_delta_frame:
  "uap_position (animate (Fin 0) (Fin 0) (Fin 0) fresh_game) = Vec NaN NaN (Fin 0)"
proof -
  have run: "animate (Fin 0) (Fin 0) (Fin 0) fresh_game = update (Fin 0) (Fin 0) (Fin 0) fresh_game"
    by (simp add: animate_def fresh_game_def start_def new_GameEngine_def)
  show ?thesis
    unfolding run update_position
    apply (simp add: Let_def autopilot_force_def fresh_target split_beta)
    apply (simp add: fresh_game_def update_boost_def start_def new_GameEngine_def Vec_def
        calculate_def new_PIDController_def Let_def signed_inf_def apply_physics_def add_v_def
        multiplyScalar_def GAME_CONFIG)
    done
qed

section \<open>Properties of the PID controller\<close>

lemma no_overflow_limit_pos: "0 < no_overflow_limit"
  by (simp add: no_overflow_limit_def)

lemma no_overflow_limit_cube: "no_overflow_limit ^ 3 = 10 ^ 300"
  by (simp add: no_overflow_limit_def power_mult [symmetric])

lemma terms_below_overflow:
  fixes p i d a e pe dt :: real
  assumes "\<bar>p\<bar> \<le> no_overflow_limit" "\<bar>i\<bar> \<le> no_overflow_limit" "\<bar>d\<bar> \<le> no_overflow_limit"
    and "\<bar>a\<bar> \<le> no_overflow_limit" "\<bar>pe\<bar> \<le> no_overflow_limit" "\<bar>e\<bar> \<le> no_overflow_limit"
    and "1 / no_overflow_limit \<le> \<bar>dt\<bar>" "\<bar>dt\<bar> \<le> no_overflow_limit"
  shows "\<bar>p * e\<bar> \<le> no_overflow_limit ^ 2 \<and>
         \<bar>e * dt\<bar> \<le> no_overflow_limit ^ 2 \<and>
         \<bar>a + e * dt\<bar> \<le> no_overflow_limit + no_overflow_limit ^ 2 \<and>
         \<bar>i * max (- 15) (min 15 (a + e * dt))\<bar> \<le> 15 * no_overflow_limit \<and>
         \<bar>(e - pe) / dt\<bar> \<le> 2 * no_overflow_limit ^ 2 \<and>
         \<bar>d * ((e - pe) / dt)\<bar> \<le> 2 * no_overflow_limit ^ 3 \<and>
         \<bar>p * e + i * max (- 15) (min 15 (a + e * dt)) + d * ((e - pe) / dt)\<bar>
           \<le> no_overflow_limit ^ 2 + 15 * no_overflow_limit + 2 * no_overflow_limit ^ 3"
proof -
  define L where "L = no_overflow_limit"
  define I where "I = max (- 15) (min 15 (a + e * dt))"
  note b = assms [folded L_def]
  have L: "0 < L" unfolding L_def by (rule no_overflow_limit_pos)
  have P: "\<bar>p * e\<bar> \<le> L * L"
    unfolding abs_mult using b(1,6) L by (intro mult_mono) simp_all
  have E: "\<bar>e * dt\<bar> \<le> L * L"
    unfolding abs_mult using b(6,8) L by (intro mult_mono) simp_all
  have A: "\<bar>a + e * dt\<bar> \<le> L + L * L"
    using b(4) E by linarith
  have "\<bar>I\<bar> \<le> 15" unfolding I_def by linarith
  then have "\<bar>i * I\<bar> \<le> L * 15"
    unfolding abs_mult using b(2) L by (intro mult_mono) simp_all
  then have T: "\<bar>i * I\<bar> \<le> 15 * L" by (simp add: mult.commute)
  have dtpos: "0 < \<bar>dt\<bar>"
  proof -
    have "0 < 1 / L" using L by simp
    with b(7) show ?thesis by linarith
  qed
  have "1 \<le> L * \<bar>dt\<bar>"
    using b(7) L by (simp add: field_simps)
  then have inv: "1 / \<bar>dt\<bar> \<le> L"
    using dtpos by (simp add: field_simps)
  have diff: "\<bar>e - pe\<bar> \<le> 2 * L" using b(5,6) by linarith
  have "\<bar>(e - pe) / dt\<bar> = \<bar>e - pe\<bar> * (1 / \<bar>dt\<bar>)" by (simp add: abs_divide)
  also have "\<dots> \<le> (2 * L) * L"
    using diff inv dtpos L by (intro mult_mono) simp_all
  finally have Q: "\<bar>(e - pe) / dt\<bar> \<le> 2 * (L * L)" by simp
  have "\<bar>d * ((e - pe) / dt)\<bar> \<le> L * (2 * (L * L))"
    unfolding abs_mult using b(3) Q L by (intro mult_mono) simp_all
  then have D: "\<bar>d * ((e - pe) / dt)\<bar> \<le> 2 * (L * L * L)" by (simp add: mult.assoc mult.left_commute)
  have S: "\<bar>p * e + i * I + d * ((e - pe) / dt)\<bar> \<le> L * L + 15 * L + 2 * (L * L * L)"
    using P T D by linarith
  from P E A T Q D S show ?thesis
    unfolding L_def [symmetric] I_def [symmetric]
    by (simp only: power2_eq_square power3_eq_cube)
qed

lemma minus_NaN [simp]: "a - NaN = NaN"
  by (cases a) (simp_all add: minus_jsnum_def)

lemma calculate_NaN_error: "snd (calculate c NaN dt) = NaN"
proof -
  have P: "kp c * NaN = NaN" by (cases "kp c") simp_all
  have S: "NaN + a = NaN" for a :: jsnum by simp
  have M: "Math_min m NaN = NaN" for m by (cases m) simp_all
  have X: "Math_max m NaN = NaN" for m by (cases m) simp_all
  show ?thesis by (simp add: calculate_def Let_def P S M X)
qed

text \<open>
  C1, as stated, fails: \<open>Math.max\<close> and \<open>Math.min\<close> return \<open>NaN\<close> when the sum of the
  three terms is \<open>NaN\<close>. Once a frame of delta 0 has left the craft at \<open>NaN\<close>, the error
  the engine feeds the X controller in the next frame, of 16 ms, is \<open>NaN\<close>, and so is the
  output. And with gains so large that the proportional and the derivative term are
  infinite, two calls with \<open>dt = 1\<close> and the errors 1 and 0.5 give the terms
  \<open>Infinity\<close> and \<open>-Infinity\<close>, whose sum is \<open>NaN\<close>.
\<close>

theorem calculate_output_NaN_counterexample:
  "vx (uap_position (update (Fin 0) (Fin 0) (Fin 0) fresh_game)) = NaN \<and>
   snd (calculate (pidX (update (Fin 0) (Fin 0) (Fin 0) fresh_game))
          (vx (calculateEvadeTarget (update (Fin 0) (Fin 0) (Fin 0) fresh_game))
             - vx (uap_position (update (Fin 0) (Fin 0) (Fin 0) fresh_game)))
          (Fin 0.016)) = NaN \<and>
   \<not> NaN \<le> Fin 80 \<and> \<not> Fin (- 80) \<le> NaN \<and>
   snd (calculate pid_huge (Fin 1) (Fin 1)) = Fin 80 \<and>
   snd (calculate (fst (calculate pid_huge (Fin 1) (Fin 1))) (Fin 0.5) (Fin 1)) = NaN"
proof -
  have run: "animate (Fin 0) (Fin 0) (Fin 0) fresh_game = update (Fin 0) (Fin 0) (Fin 0) fresh_game"
    by (simp add: animate_def fresh_game_def start_def new_GameEngine_def)
  have x: "vx (uap_position (update (Fin 0) (Fin 0) (Fin 0) fresh_game)) = NaN"
    using zero_delta_frame unfolding run by (simp add: Vec_def)
  have huge: "snd (calculate pid_huge (Fin 1) (Fin 1)) = Fin 80 \<and>
      snd (calculate (fst (calculate pid_huge (Fin 1) (Fin 1))) (Fin 0.5) (Fin 1)) = NaN"
    by (simp add: pid_huge_def new_PIDController_def calculate_def Let_def signed_inf_def)
  show ?thesis
    using huge by (simp add: x calculate_NaN_error less_eq_jsnum_def)
qed

text \<open>
  C1, amended. For a controller whose gains and accumulated state are at most \<open>10^100\<close>
  in magnitude, whose output cap is not negative, every error of magnitude at most
  \<open>10^100\<close> and every \<open>dt\<close> between \<open>10^-100\<close> and \<open>10^100\<close>: the value returned by
  \<open>calculate\<close> lies between \<open>-maxOutput\<close> and \<open>+maxOutput\<close>.
\<close>

theorem calculate_output_within_cap:
  assumes "kp c = Fin p" "ki c = Fin i" "kd c = Fin d"
    and "integral c = Fin a" "prevError c = Fin pe" "maxOutput c = Fin m" "0 \<le> m"
    and "\<bar>p\<bar> \<le> no_overflow_limit" "\<bar>i\<bar> \<le> no_overflow_limit" "\<bar>d\<bar> \<le> no_overflow_limit"
    and "\<bar>a\<bar> \<le> no_overflow_limit" "\<bar>pe\<bar> \<le> no_overflow_limit" "\<bar>e\<bar> \<le> no_overflow_limit"
    and "1 / no_overflow_limit \<le> dt" "dt \<le> no_overflow_limit"
  shows "- maxOutput c \<le> snd (calculate c (Fin e) (Fin dt)) \<and>
         snd (calculate c (Fin e) (Fin dt)) \<le> maxOutput c"
proof -
  have "0 < 1 / no_overflow_limit" by (simp add: no_overflow_limit_def)
  with assms(14) have "dt \<noteq> 0" by linarith
  with assms(7) show ?thesis
    by (simp add: calculate_def Let_def assms(1-6))
qed

text \<open>The X controller at error 100 and a frame of 16 ms: the output is cut to 80.\<close>

theorem calculate_output_within_cap_witness:
  "snd (calculate pid_X (Fin 100) (Fin 0.016)) = Fin 80 \<and>
   - maxOutput pid_X \<le> snd (calculate pid_X (Fin 100) (Fin 0.016)) \<and>
   snd (calculate pid_X (Fin 100) (Fin 0.016)) \<le> maxOutput pid_X"
proof -
  have b: "\<bar>10 :: real\<bar> \<le> no_overflow_limit" "\<bar>0.5 :: real\<bar> \<le> no_overflow_limit"
    "\<bar>5 :: real\<bar> \<le> no_overflow_limit" "\<bar>0 :: real\<bar> \<le> no_overflow_limit"
    "\<bar>100 :: real\<bar> \<le> no_overflow_limit"
    "1 / no_overflow_limit \<le> (0.016 :: real)" "(0.016 :: real) \<le> no_overflow_limit"
    by (simp_all add: no_overflow_limit_def)
  have c: "kp pid_X = Fin 10" "ki pid_X = Fin 0.5" "kd pid_X = Fin 5" "integral pid_X = Fin 0"
    "prevError pid_X = Fin 0" "maxOutput pid_X = Fin 80"
    by (simp_all add: pid_X_def new_PIDController_def)
  have v: "snd (calculate pid_X (Fin 100) (Fin 0.016)) = Fin 80"
    by (simp add: pid_X_def new_PIDController_def calculate_def Let_def)
  from calculate_output_within_cap [OF c _ b(1,2,3,4,4,5,6,7)] v
  show ?thesis by simp
qed




text \<open>
  C6, as stated, fails: \<open>calculate\<close> divides by \<open>dt\<close> as it is given. With \<open>dt = 0\<close> and an
  error equal to the previous one, the derivative is \<open>0 / 0\<close> and the output is \<open>NaN\<close>; the
  frame loop lets a delta of 0 through, and such a frame leaves the craft at \<open>NaN\<close>.
\<close>

theorem calculate_zero_dt_counterexample:
  "snd (calculate pid_X (Fin 0) (Fin 0)) = NaN \<and>
   \<not> isFinite (snd (calculate pid_X (Fin 0) (Fin 0))) \<and>
   uap_position (animate (Fin 0) (Fin 0) (Fin 0) fresh_game) = Vec NaN NaN (Fin 0)"
  using zero_delta_frame
  by (simp add: pid_X_def new_PIDController_def calculate_def Let_def signed_inf_def)

lemma calculate_lastD:
  assumes "kd c = Fin d" "prevError c = Fin pe"
  shows "lastD (fst (calculate c (Fin e) dt)) = Fin d * (Fin (e - pe) / dt)"
  using assms by (simp add: calculate_def Let_def)

lemma calculate_output:
  assumes "kp c = Fin p" "ki c = Fin i" "kd c = Fin d" "maxOutput c = Fin m"
    and "integral c = Fin a" "prevError c = Fin pe"
  shows "snd (calculate c (Fin e) (Fin dt)) =
     Math_max (Fin (- m)) (Math_min (Fin m)
       (Fin (p * e + i * max (- 15) (min 15 (a + e * dt))) + Fin d * (Fin (e - pe) / Fin dt)))"
  using assms by (simp add: calculate_def Let_def)

lemma clamp_finite_iff:
  "isFinite (Math_max (Fin l) (Math_min (Fin m) (Fin x + y))) \<longleftrightarrow> y \<noteq> NaN"
  by (cases y) simp_all

lemma Fin_times_signed_inf: "Fin d * signed_inf s = NaN \<longleftrightarrow> d = 0 \<or> s = 0"
  by (auto simp: signed_inf_def sgn_real_def zero_less_mult_iff mult_less_0_iff)

text \<open>
  C6, amended. \<open>calculate\<close> has no guard on \<open>dt\<close>, and the frame loop only caps it from
  above: a delta of at most 0.1 (zero and negative ones included) reaches \<open>update\<close>
  unchanged. For gains, state and error of magnitude at most \<open>10^100\<close>, and a \<open>dt\<close> that
  is 0 or between \<open>10^-100\<close> and \<open>10^100\<close> in magnitude: the derivative term divides by
  the \<open>dt\<close> given whenever it is not zero, and the output is finite exactly when \<open>dt\<close> is
  not zero, or the error differs from the previous one and \<open>kd\<close> is not zero (an infinite
  term, cut to the output cap).
\<close>

theorem calculate_finite_iff:
  assumes "kp c = Fin p" "ki c = Fin i" "kd c = Fin d" "maxOutput c = Fin m"
    and "integral c = Fin a" "prevError c = Fin pe"
    and "\<bar>p\<bar> \<le> no_overflow_limit" "\<bar>i\<bar> \<le> no_overflow_limit" "\<bar>d\<bar> \<le> no_overflow_limit"
    and "\<bar>a\<bar> \<le> no_overflow_limit" "\<bar>pe\<bar> \<le> no_overflow_limit" "\<bar>e\<bar> \<le> no_overflow_limit"
    and "dt = 0 \<or> (1 / no_overflow_limit \<le> \<bar>dt\<bar> \<and> \<bar>dt\<bar> \<le> no_overflow_limit)"
  shows "(isFinite (snd (calculate c (Fin e) (Fin dt))) \<longleftrightarrow> dt \<noteq> 0 \<or> (e \<noteq> pe \<and> d \<noteq> 0)) \<and>
         (dt \<noteq> 0 \<longrightarrow> lastD (fst (calculate c (Fin e) (Fin dt))) = Fin (d * ((e - pe) / dt))) \<and>
         (delta \<le> 0.1 \<and> \<not> disposed s \<and> gameStarted s \<and> \<not> gamePaused s \<and> \<not> gameOver s \<longrightarrow>
            animate (Fin delta) time now s = update (Fin delta) time now s)"
proof -
  have fin: "isFinite (snd (calculate c (Fin e) (Fin dt))) \<longleftrightarrow>
      Fin d * (Fin (e - pe) / Fin dt) \<noteq> NaN"
    unfolding calculate_output [OF assms(1-6)] by (rule clamp_finite_iff)
  have frame: "delta \<le> 0.1 \<and> \<not> disposed s \<and> gameStarted s \<and> \<not> gamePaused s \<and> \<not> gameOver s \<longrightarrow>
      animate (Fin delta) time now s = update (Fin delta) time now s"
    by (simp add: animate_def min_def)
  show ?thesis
  proof (cases "dt = 0")
    case True
    then have "Fin d * (Fin (e - pe) / Fin dt) = Fin d * signed_inf (sgn (e - pe))" by simp
    with True fin frame show ?thesis by (auto simp add: Fin_times_signed_inf sgn_zero_iff)
  next
    case False
    with fin frame show ?thesis by (simp add: calculate_lastD assms(1-6))
  qed
qed

text \<open>
  The X controller, fresh: a negative \<open>dt\<close> is divided by as it is; \<open>dt = 0\<close> gives a
  finite output at error 3 and a non-finite one at error 0; a frame of delta 0 runs
  \<open>update\<close> with \<open>dt = 0\<close>.
\<close>

theorem calculate_finite_iff_witness:
  "isFinite (snd (calculate pid_X (Fin 3) (Fin (- 1)))) \<and>
   lastD (fst (calculate pid_X (Fin 3) (Fin (- 1)))) = Fin (- 15) \<and>
   isFinite (snd (calculate pid_X (Fin 3) (Fin 0))) \<and>
   \<not> isFinite (snd (calculate pid_X (Fin 0) (Fin 0))) \<and>
   animate (Fin 0) (Fin 12) (Fin 12000) game0 = update (Fin 0) (Fin 12) (Fin 12000) game0"
proof -
  have b: "\<bar>10 :: real\<bar> \<le> no_overflow_limit" "\<bar>0.5 :: real\<bar> \<le> no_overflow_limit"
    "\<bar>5 :: real\<bar> \<le> no_overflow_limit" "\<bar>0 :: real\<bar> \<le> no_overflow_limit"
    "\<bar>3 :: real\<bar> \<le> no_overflow_limit"
    "(- 1 :: real) = 0 \<or> (1 / no_overflow_limit \<le> \<bar>- 1 :: real\<bar> \<and> \<bar>- 1 :: real\<bar> \<le> no_overflow_limit)"
    "(0 :: real) = 0 \<or> (1 / no_overflow_limit \<le> \<bar>0 :: real\<bar> \<and> \<bar>0 :: real\<bar> \<le> no_overflow_limit)"
    by (simp_all add: no_overflow_limit_def)
  have c: "kp pid_X = Fin 10" "ki pid_X = Fin 0.5" "kd pid_X = Fin 5" "maxOutput pid_X = Fin 80"
    "integral pid_X = Fin 0" "prevError pid_X = Fin 0"
    by (simp_all add: pid_X_def new_PIDController_def)
  have g: "(0 :: real) \<le> 0.1" "\<not> disposed game0" "gameStarted game0" "\<not> gamePaused game0"
    "\<not> gameOver game0"
    by (simp_all add: game0_def start_def new_GameEngine_def)
  from calculate_finite_iff [OF c b(1,2,3,4,4,5,6), where delta = 0 and s = game0
      and time = "Fin 12" and now = "Fin 12000"]
    calculate_finite_iff [OF c b(1,2,3,4,4,5,7), where delta = 0 and s = game0]
    calculate_finite_iff [OF c b(1,2,3,4,4,4,7), where delta = 0 and s = game0]
    g
  show ?thesis by simp
qed

section \<open>Manual flight and the physics step\<close>

text \<open>
  C5, as stated, fails in its second half: with no key held the vertical force is
  \<open>UAP_GRAVITY + UAP_HOVER_FORCE = -15 + 14 = -1\<close>, which is not positive.
\<close>

theorem manual_idle_vertical_force_counterexample:
  "vy (manual_force (\<lambda>code. False) UAP_THRUST) = Fin (- 1) \<and>
   \<not> Fin 0 < vy (manual_force (\<lambda>code. False) UAP_THRUST)"
  by (simp add: manual_force_def Vec_def GAME_CONFIG)

text \<open>
  C5, amended. In manual mode, when neither the ascend key nor a descend key is held, the
  vertical force is the sum of the gravity constant and the hover constant, whatever the
  other keys and the thrust are; by configuration this sum is \<open>-1\<close>, a small downward
  bias.
\<close>

theorem manual_idle_vertical_force:
  assumes "\<not> k ''Space''" "\<not> k ''ShiftLeft''" "\<not> k ''ShiftRight''"
  shows "vy (manual_force k thrust) = UAP_GRAVITY + UAP_HOVER_FORCE \<and>
         UAP_GRAVITY + UAP_HOVER_FORCE = Fin (- 1)"
  using assms by (simp add: manual_force_def Vec_def Let_def GAME_CONFIG)

text \<open>Flying forward with boost thrust, no vertical key held.\<close>

theorem manual_idle_vertical_force_witness:
  "vy (manual_force (\<lambda>code. code = ''KeyW'') UAP_BOOST_THRUST) = Fin (- 1)"
  using manual_idle_vertical_force [of "\<lambda>code. code = ''KeyW''" UAP_BOOST_THRUST]
  by simp

lemma manual_force_finite: "isFinite thrust \<Longrightarrow> isFinite_v (manual_force k thrust)"
  by (auto simp add: manual_force_def Let_def Vec_def isFinite_v_def isFinite_iff GAME_CONFIG)

lemma physics_in_arena:
  assumes "isFinite_v force" "isFinite dt" "isFinite_v (uap_position s)" "isFinite_v (uapVelocity s)"
  shows "in_arena (uap_position (apply_physics force dt s))"
proof -
  from assms obtain fx fy fz t px py pz wx wy wz where v:
    "vx force = Fin fx" "vy force = Fin fy" "vz force = Fin fz" "dt = Fin t"
    "vx (uap_position s) = Fin px" "vy (uap_position s) = Fin py" "vz (uap_position s) = Fin pz"
    "vx (uapVelocity s) = Fin wx" "vy (uapVelocity s) = Fin wy" "vz (uapVelocity s) = Fin wz"
    unfolding isFinite_v_def isFinite_iff by blast
  show ?thesis
    by (simp add: in_arena_def apply_physics_def Let_def add_v_def multiplyScalar_def v GAME_CONFIG)
qed

lemma update_manual_in_arena:
  assumes "\<not> autopilot s" "isFinite dt" "isFinite_v (uap_position s)" "isFinite_v (uapVelocity s)"
  shows "in_arena (uap_position (update dt time now s))"
proof -
  define s1 where "s1 = update_boost dt (s\<lparr>survivalTime := survivalTime s + dt\<rparr>)"
  define F where
    "F = manual_force (keys s1) (if isBoosting s1 then UAP_BOOST_THRUST else UAP_THRUST)"
  have craft: "uap_position s1 = uap_position s" "uapVelocity s1 = uapVelocity s" "\<not> autopilot s1"
    using assms(1) by (simp_all add: s1_def)
  have "isFinite (if isBoosting s1 then UAP_BOOST_THRUST else UAP_THRUST)"
    by (simp add: GAME_CONFIG)
  then have F: "isFinite_v F" unfolding F_def by (rule manual_force_finite)
  have p: "uap_position (update dt time now s) = uap_position (apply_physics F dt s1)"
    using craft(3) by (simp add: update_position Let_def s1_def [symmetric] F_def [symmetric])
  from assms(3,4) craft have "isFinite_v (uap_position s1)" "isFinite_v (uapVelocity s1)"
    by simp_all
  with F assms(2) show ?thesis unfolding p by (intro physics_in_arena)
qed

text \<open>
  C7, as stated, fails. On a game just started in autopilot mode, a frame of delta 0 makes
  the controllers of X and Y return \<open>NaN\<close>; the comparisons and the clamps of the bounds
  check let \<open>NaN\<close> through, and after this one step the craft is at \<open>(NaN, NaN, 0)\<close>, where
  no bound holds.
\<close>

theorem update_zero_delta_counterexample:
  "isFinite_v (uap_position fresh_game) \<and> isFinite_v (uapVelocity fresh_game) \<and>
   applied_force (Fin 0) fresh_game = Vec NaN NaN (Fin 80) \<and>
   uap_position (update (Fin 0) (Fin 0) (Fin 0) fresh_game) = Vec NaN NaN (Fin 0) \<and>
   \<not> in_arena (uap_position (update (Fin 0) (Fin 0) (Fin 0) fresh_game))"
proof -
  have run: "animate (Fin 0) (Fin 0) (Fin 0) fresh_game = update (Fin 0) (Fin 0) (Fin 0) fresh_game"
    by (simp add: animate_def fresh_game_def start_def new_GameEngine_def)
  have p: "uap_position (update (Fin 0) (Fin 0) (Fin 0) fresh_game) = Vec NaN NaN (Fin 0)"
    using zero_delta_frame unfolding run .
  have f: "applied_force (Fin 0) fresh_game = Vec NaN NaN (Fin 80)"
    unfolding applied_force_def
    apply (simp add: Let_def autopilot_force_def fresh_target split_beta)
    apply (simp add: fresh_game_def update_boost_def start_def new_GameEngine_def Vec_def
        calculate_def new_PIDController_def Let_def signed_inf_def)
    done
  have s: "isFinite_v (uap_position fresh_game) \<and> isFinite_v (uapVelocity fresh_game)"
    by (simp add: fresh_game_def start_def new_GameEngine_def isFinite_v_def Vec_def)
  have n: "\<not> in_arena (Vec NaN NaN (Fin 0))"
    by (simp add: in_arena_def Vec_def less_eq_jsnum_def GAME_CONFIG)
  from p f s n show ?thesis by simp
qed

text \<open>
  C7, amended. After the physics and bounds-checking block of an update step, for every
  finite force, every finite \<open>dt\<close> and every finite prior position and velocity, the
  craft is in the arena: the altitude is at least the floor and at most the ceiling, and X
  and Z are within their bounds. So it is after every update step in manual mode, where
  the force is finite whatever keys are held.
\<close>

theorem craft_in_arena_after_step:
  assumes "isFinite dt" "isFinite_v (uap_position s)" "isFinite_v (uapVelocity s)"
  shows "(isFinite_v force \<longrightarrow> in_arena (uap_position (apply_physics force dt s))) \<and>
         (\<not> autopilot s \<longrightarrow> in_arena (uap_position (update dt time now s)))"
proof -
  have block: "in_arena (uap_position (apply_physics force dt s))" if "isFinite_v force"
    using that assms by (rule physics_in_arena)
  have manual: "in_arena (uap_position (update dt time now s))" if "\<not> autopilot s"
    using that assms by (rule update_manual_in_arena)
  from block manual show ?thesis by blast
qed

text \<open>
  A force of a million units along X and downwards, for a frame of 0.1 s, from
  \<open>(0, 10, 0)\<close> at rest: the craft stops at the wall \<open>x = 60\<close> and on the floor \<open>y = 1\<close>.
  And a frame of 16 ms in manual mode with the forward key held.
\<close>

theorem craft_in_arena_after_step_witness:
  "uap_position (apply_physics (Vec (Fin 1000000) (Fin (- 1000000)) (Fin 0)) (Fin 0.1) game0)
     = Vec (Fin 60) (Fin 1) (Fin 0) \<and>
   in_arena (uap_position (apply_physics (Vec (Fin 1000000) (Fin (- 1000000)) (Fin 0)) (Fin 0.1) game0)) \<and>
   applied_force (Fin 0.016) manual_game = Vec (Fin 0) (Fin (- 1)) (Fin (- 40)) \<and>
   in_arena (uap_position (update (Fin 0.016) (Fin 12) (Fin 12000) manual_game))"
proof -
  have g: "isFinite (Fin 0.1)" "isFinite_v (uap_position game0)" "isFinite_v (uapVelocity game0)"
    "isFinite_v (Vec (Fin 1000000) (Fin (- 1000000)) (Fin 0))"
    by (simp_all add: game0_def start_def new_GameEngine_def isFinite_v_def Vec_def)
  have m: "isFinite (Fin 0.016)" "isFinite_v (uap_position manual_game)"
    "isFinite_v (uapVelocity manual_game)" "\<not> autopilot manual_game"
    by (simp_all add: manual_game_def start_def new_GameEngine_def isFinite_v_def Vec_def)
  have v: "uap_position (apply_physics (Vec (Fin 1000000) (Fin (- 1000000)) (Fin 0)) (Fin 0.1) game0)
     = Vec (Fin 60) (Fin 1) (Fin 0)"
    by (simp add: apply_physics_def Let_def add_v_def multiplyScalar_def Vec_def GAME_CONFIG
      game0_def start_def new_GameEngine_def)
  have f: "applied_force (Fin 0.016) manual_game = Vec (Fin 0) (Fin (- 1)) (Fin (- 40))"
    by (simp add: applied_force_def manual_game_def start_def new_GameEngine_def update_boost_def
        manual_force_def Let_def Vec_def GAME_CONFIG)
  from craft_in_arena_after_step [OF g(1,2,3), of "Vec (Fin 1000000) (Fin (- 1000000)) (Fin 0)"]
    craft_in_arena_after_step [OF m(1,2,3), of _ "Fin 12" "Fin 12000"] g(4) m(4) v f
  show ?thesis by simp
qed

section \<open>restart\<close>

lemma reset_aliens_shotInterval:
  "map shotInterval (reset_aliens rnd i as) = map shotInterval as"
  by (induction as arbitrary: i) simp_all

lemma reset_aliens_alive:
  "map alive (reset_aliens rnd i as) = replicate (length as) True"
  by (induction as arbitrary: i) simp_all

lemma reset_aliens_lastShot:
  "map lastShot (reset_aliens rnd i as) = map (\<lambda>j. rnd j * Fin 2000) [i ..< i + length as]"
proof (induction as arbitrary: i)
  case Nil
  show ?case by simp
next
  case (Cons a as)
  have "[i ..< i + length (a # as)] = i # [Suc i ..< Suc i + length as]"
    by (subst upt_rec) simp
  with Cons show ?case by simp
qed

text \<open>
  C8, as stated, fails in its last part: \<open>restart\<close> draws a new \<open>lastShot\<close> for every
  alien and leaves \<open>shotInterval\<close> as it was. The alien of \<open>game0\<close> has the interval 4000;
  after a restart whose draw is 0 the interval is still 4000, where an interval drawn from
  the fire-rate range with that draw is 2500.
\<close>

theorem restart_keeps_shotInterval_counterexample:
  "shotInterval alien0 = Fin 4000 \<and>
   map shotInterval (aliens (restart (\<lambda>i. Fin 0) game0)) = [Fin 4000] \<and>
   map lastShot (aliens (restart (\<lambda>i. Fin 0) game0)) = [Fin 0] \<and>
   ALIEN_FIRE_RATE_MIN + Fin 0 * (ALIEN_FIRE_RATE_MAX - ALIEN_FIRE_RATE_MIN) = Fin 2500"
  by (simp add: restart_def game0_def start_def new_GameEngine_def alien0_def createAlien_def
      Let_def GAME_CONFIG)

text \<open>
  C8, amended. After \<open>restart\<close>, whatever the state before: shields are \<open>SHIELD_MAX\<close>, the
  evade count and the survival time are 0, no laser remains, the three controllers are
  reset (accumulator, previous error and the three cached terms are 0), and every alien is
  alive with a newly drawn \<open>lastShot\<close> (the draw times 2000) and the shot interval it had
  before.
\<close>

theorem restart_resets:
  "shields (restart rnd s) = SHIELD_MAX \<and>
   evadeCount (restart rnd s) = 0 \<and>
   survivalTime (restart rnd s) = Fin 0 \<and>
   lasers (restart rnd s) = [] \<and>
   pidX (restart rnd s) = reset (pidX s) \<and>
   pidY (restart rnd s) = reset (pidY s) \<and>
   pidZ (restart rnd s) = reset (pidZ s) \<and>
   integral (reset c) = Fin 0 \<and> prevError (reset c) = Fin 0 \<and>
   lastP (reset c) = Fin 0 \<and> lastI (reset c) = Fin 0 \<and> lastD (reset c) = Fin 0 \<and>
   map alive (aliens (restart rnd s)) = replicate (length (aliens s)) True \<and>
   map lastShot (aliens (restart rnd s)) = map (\<lambda>i. rnd i * Fin 2000) [0 ..< length (aliens s)] \<and>
   map shotInterval (aliens (restart rnd s)) = map shotInterval (aliens s)"
  using reset_aliens_lastShot [of rnd 0 "aliens s"]
  by (simp add: restart_def reset_def reset_aliens_shotInterval reset_aliens_alive)

text \<open>The damaged game \<open>game0\<close>, restarted with the draw 0.25.\<close>

theorem restart_resets_witness:
  "shields game0 = Fin 46 \<and> evadeCount game0 = 3 \<and> survivalTime game0 = Fin 12 \<and>
   lasers game0 = [laser0] \<and>
   shields (restart (\<lambda>i. Fin 0.25) game0) = Fin 100 \<and>
   evadeCount (restart (\<lambda>i. Fin 0.25) game0) = 0 \<and>
   survivalTime (restart (\<lambda>i. Fin 0.25) game0) = Fin 0 \<and>
   lasers (restart (\<lambda>i. Fin 0.25) game0) = [] \<and>
   map lastShot (aliens (restart (\<lambda>i. Fin 0.25) game0)) = [Fin 500] \<and>
   map shotInterval (aliens (restart (\<lambda>i. Fin 0.25) game0)) = [Fin 4000]"
  using restart_resets [of "\<lambda>i. Fin 0.25" game0]
  by (simp add: game0_def start_def new_GameEngine_def alien0_def createAlien_def Let_def GAME_CONFIG)

section \<open>Lasers: hits and near misses\<close>

lemma advance_laser_counted [simp]:
  "advance_laser dt (l\<lparr>counted := b\<rparr>) = (advance_laser dt l)\<lparr>counted := b\<rparr>"
  "counted (advance_laser dt l) = counted l"
  by (simp_all add: advance_laser_def Let_def)

lemma expired_counted [simp]: "expired (l\<lparr>counted := b\<rparr>) = expired l"
  by (simp add: expired_def)

lemma never_hit_counted [simp]: "never_hit frames (l\<lparr>counted := b\<rparr>) = never_hit frames l"
  by (induction frames l rule: never_hit.induct) (simp_all add: Let_def)

lemma in_band_sometime_counted [simp]:
  "in_band_sometime frames (l\<lparr>counted := b\<rparr>) = in_band_sometime frames l"
  by (induction frames l rule: in_band_sometime.induct) (simp_all add: Let_def)

lemma laser_body_miss:
  assumes "\<not> distanceTo (mesh_position (advance_laser dt l)) (uap_position s) < Fin 1.8"
  shows "laser_body dt l s =
    (let l' = advance_laser dt l; d = distanceTo (mesh_position l') (uap_position s);
         credit = (d < Fin 4 \<and> Fin 1.8 < d \<and> \<not> counted l)
     in (if expired l' then None else Some (if credit then l'\<lparr>counted := True\<rparr> else l'),
         if credit then s\<lparr>evadeCount := Suc (evadeCount s)\<rparr> else s))"
  using assms by (simp add: laser_body_def Let_def)

lemma evadeCount_uap_position [simp]: "evadeCount (s\<lparr>uap_position := p\<rparr>) = evadeCount s"
  by simp

lemma counted_no_more_credit:
  "counted l \<Longrightarrow> never_hit frames l \<Longrightarrow> evadeCount (snd (laser_life frames l s)) = evadeCount s"
proof (induction frames arbitrary: l s)
  case Nil
  show ?case by simp
next
  case (Cons f frames)
  obtain dt upos where f: "f = (dt, upos)" by (cases f)
  let ?l = "advance_laser dt l"
  from Cons.prems f
  have miss: "\<not> distanceTo (mesh_position ?l) upos < Fin 1.8"
    and rest: "expired ?l \<or> never_hit frames ?l"
    by (simp_all add: Let_def)
  have body: "laser_body dt l (s\<lparr>uap_position := upos\<rparr>) =
      (if expired ?l then None else Some ?l, s\<lparr>uap_position := upos\<rparr>)"
    using miss Cons.prems(1) by (simp add: laser_body_miss Let_def)
  show ?case
  proof (cases "expired ?l")
    case True
    with body f show ?thesis by simp
  next
    case False
    with rest have "never_hit frames ?l" by simp
    with Cons.IH [of ?l "s\<lparr>uap_position := upos\<rparr>"] Cons.prems(1)
    have "evadeCount (snd (laser_life frames ?l (s\<lparr>uap_position := upos\<rparr>))) = evadeCount s"
      by simp
    with body f False show ?thesis by simp
  qed
qed

lemma sqrt_hit_radius: "sqrt (324 / 100) = 18 / 10"
  by (rule real_sqrt_unique) (simp_all add: power2_eq_square)

lemma sqrt_lt_hit [simp]: "sqrt q < 18 / 10 \<longleftrightarrow> q < 324 / 100"
  using real_sqrt_less_iff [of q "324 / 100"] by (simp only: sqrt_hit_radius)

lemma sqrt_gt_hit [simp]: "18 / 10 < sqrt q \<longleftrightarrow> 324 / 100 < q"
  using real_sqrt_less_iff [of "324 / 100" q] by (simp only: sqrt_hit_radius)

lemma sqrt_lt_near [simp]: "sqrt q < 4 \<longleftrightarrow> q < 16"
  using real_sqrt_less_iff [of q 16] by simp

lemma sqrt_400: "sqrt 400 = 20"
  by (rule real_sqrt_unique) simp_all

lemma laser0_direction: "direction laser0 = Vec (Fin 0) (Fin 0) (Fin (- 1))"
  by (simp add: laser0_def createLaser_def normalize_def divideScalar_def js_or_def length_v_def
      subVectors_def multiplyScalar_def Vec_def sqrt_400)

lemma laser1_from_laser0:
  "laser_life [(Fin 0.1, craft0), (Fin 0.1, craft0)] laser0 game0 =
     (Some laser1, game0\<lparr>uap_position := craft0\<rparr>)"
  using laser0_direction
  apply (simp add: laser_body_def advance_laser_def Let_def distanceTo_def expired_def craft0_def laser1_def)
  apply (simp add: laser0_def createLaser_def Vec_def add_v_def multiplyScalar_def GAME_CONFIG
      game0_def start_def new_GameEngine_def)
  done

lemma jsnum_less_asym: "(a::jsnum) < b \<Longrightarrow> \<not> b < a"
  by (cases a; cases b) simp_all

text \<open>
  C9. A laser that is not yet counted (as \<open>createLaser\<close> makes it), that in no frame of
  its life is inside the hit radius and that in some frame of its life is strictly between
  the hit radius and the near-miss radius, raises the evade counter by exactly 1 over its
  frames, however many of them it spends in the band.
\<close>

theorem near_miss_counted_once:
  assumes "\<not> counted l" "never_hit frames l" "in_band_sometime frames l"
  shows "evadeCount (snd (laser_life frames l s)) = evadeCount s + 1"
  using assms
proof (induction frames arbitrary: l s)
  case Nil
  then show ?case by simp
next
  case (Cons f frames)
  obtain dt upos where f: "f = (dt, upos)" by (cases f)
  let ?l = "advance_laser dt l"
  let ?d = "distanceTo (mesh_position ?l) upos"
  let ?s = "s\<lparr>uap_position := upos\<rparr>"
  from Cons.prems f
  have miss: "\<not> ?d < Fin 1.8"
    and rest: "expired ?l \<or> never_hit frames ?l"
    and band: "(Fin 1.8 < ?d \<and> ?d < Fin 4) \<or> (\<not> expired ?l \<and> in_band_sometime frames ?l)"
    by (simp_all add: Let_def)
  show ?case
  proof (cases "Fin 1.8 < ?d \<and> ?d < Fin 4")
    case True
    with miss Cons.prems(1)
    have body: "laser_body dt l ?s =
        (if expired ?l then None else Some (?l\<lparr>counted := True\<rparr>),
         ?s\<lparr>evadeCount := Suc (evadeCount s)\<rparr>)"
      by (simp add: laser_body_miss Let_def)
    show ?thesis
    proof (cases "expired ?l")
      case True
      with body f show ?thesis by simp
    next
      case False
      with rest have "never_hit frames (?l\<lparr>counted := True\<rparr>)" by simp
      then have "evadeCount (snd (laser_life frames (?l\<lparr>counted := True\<rparr>)
          (?s\<lparr>evadeCount := Suc (evadeCount s)\<rparr>))) = Suc (evadeCount s)"
        using counted_no_more_credit [of "?l\<lparr>counted := True\<rparr>" frames
            "?s\<lparr>evadeCount := Suc (evadeCount s)\<rparr>"]
        by simp
      with body f False show ?thesis by simp
    qed
  next
    case False
    with band have live: "\<not> expired ?l" and later: "in_band_sometime frames ?l" by auto
    from False miss Cons.prems(1)
    have body: "laser_body dt l ?s = (Some ?l, ?s)"
      using live by (auto simp add: laser_body_miss Let_def)
    from rest live have "never_hit frames ?l" by simp
    with Cons.IH [of ?l ?s] Cons.prems(1) later
    have "evadeCount (snd (laser_life frames ?l ?s)) = evadeCount s + 1" by simp
    with body f show ?thesis by simp
  qed
qed

text \<open>
  The laser \<open>laser2\<close> is in the band in its first two frames (distances 3 and about 3.2),
  outside it in the third and below the ground in the fourth: one evade, from 3 to 4.
\<close>

theorem near_miss_counted_once_witness:
  "fst (laser_life frames2 laser2 game0) = None \<and>
   evadeCount game0 = 3 \<and>
   evadeCount (snd (laser_life frames2 laser2 game0)) = 4"
  using near_miss_counted_once [of laser2 frames2 game0]
  by (simp add: laser2_def frames2_def craft0_def advance_laser_def Let_def distanceTo_def Vec_def add_v_def
      multiplyScalar_def expired_def GAME_CONFIG laser_body_def game0_def start_def new_GameEngine_def)

text \<open>
  C10. A laser credited as a near miss in one frame, and not expired there, stays in the
  list with its \<open>counted\<close> flag set; when the next frame brings it inside the hit radius it
  is removed as a hit and the shields lose \<open>LASER_DAMAGE\<close> (not going below 0). Over the
  two frames the laser has given one evade credit and one hit.
\<close>

theorem counted_laser_can_still_hit:
  assumes "\<not> counted l"
    and "Fin 1.8 < distanceTo (mesh_position (advance_laser dt1 l)) u1"
    and "distanceTo (mesh_position (advance_laser dt1 l)) u1 < Fin 4"
    and "\<not> expired (advance_laser dt1 l)"
    and "distanceTo (mesh_position (advance_laser dt2 (advance_laser dt1 l))) u2 < Fin 1.8"
  shows "laser_body dt1 l (s\<lparr>uap_position := u1\<rparr>) =
           (Some ((advance_laser dt1 l)\<lparr>counted := True\<rparr>),
            s\<lparr>uap_position := u1, evadeCount := Suc (evadeCount s)\<rparr>) \<and>
         fst (laser_life [(dt1, u1), (dt2, u2)] l s) = None \<and>
         evadeCount (snd (laser_life [(dt1, u1), (dt2, u2)] l s)) = evadeCount s + 1 \<and>
         shields (snd (laser_life [(dt1, u1), (dt2, u2)] l s)) =
           Math_max (Fin 0) (shields s - LASER_DAMAGE)"
proof -
  let ?l = "advance_laser dt1 l"
  let ?s = "s\<lparr>uap_position := u1\<rparr>"
  have miss: "\<not> distanceTo (mesh_position ?l) (uap_position ?s) < Fin 1.8"
    using assms(2) by (simp add: jsnum_less_asym)
  have first: "laser_body dt1 l ?s =
      (Some (?l\<lparr>counted := True\<rparr>), ?s\<lparr>evadeCount := Suc (evadeCount s)\<rparr>)"
    using assms(1-4) by (simp add: laser_body_miss [OF miss] Let_def)
  have second: "laser_body dt2 (?l\<lparr>counted := True\<rparr>) (?s\<lparr>evadeCount := Suc (evadeCount s), uap_position := u2\<rparr>) =
      (None, let s' = ?s\<lparr>evadeCount := Suc (evadeCount s), uap_position := u2,
                         shields := Math_max (Fin 0) (shields s - LASER_DAMAGE)\<rparr>
             in if shields s' \<le> Fin 0 then endGame s' else s')"
    using assms(5) by (simp add: laser_body_def Let_def)
  from first second show ?thesis
    by (simp add: Let_def endGame_def)
qed

text \<open>
  The laser \<open>laser1\<close>, flying at the craft: a frame of 100 ms brings it to distance 2 (a
  near miss, counted), the next frame of 1/60 s to distance 1 (a hit): evades go from 3 to
  4, shields from 46 to 28.
\<close>

theorem counted_laser_can_still_hit_witness:
  "fst (laser_body (Fin 0.1) laser1 (game0\<lparr>uap_position := craft0\<rparr>))
     = Some (laser1\<lparr>mesh_position := Vec (Fin 0) (Fin 10) (Fin 2), distance := Fin 18, counted := True\<rparr>) \<and>
   fst (laser_life [(Fin 0.1, craft0), (Fin (1 / 60), craft0)] laser1 game0) = None \<and>
   evadeCount game0 = 3 \<and> shields game0 = Fin 46 \<and>
   evadeCount (snd (laser_life [(Fin 0.1, craft0), (Fin (1 / 60), craft0)] laser1 game0)) = 4 \<and>
   shields (snd (laser_life [(Fin 0.1, craft0), (Fin (1 / 60), craft0)] laser1 game0)) = Fin 28"
  using counted_laser_can_still_hit [of laser1 "Fin 0.1" craft0 "Fin (1 / 60)" craft0 game0]
  by (simp add: laser1_def craft0_def advance_laser_def Let_def distanceTo_def Vec_def add_v_def
      multiplyScalar_def expired_def GAME_CONFIG game0_def start_def new_GameEngine_def
      laser_body_def endGame_def)

end
